theory Spec2Isabelle
  imports Complex_Main
begin

section \<open>Values, errors and outcomes\<close>

text \<open>
  The player client of invidtui (\<^verbatim>\<open>lib/mpv_player.go\<close>, \<^verbatim>\<open>ui/ui.go\<close>) talks to an mpv
  process through the \<^verbatim>\<open>mpvipc\<close> library. Values that cross that boundary are Go
  \<^verbatim>\<open>interface{}\<close> values: \<^verbatim>\<open>nil\<close>, booleans, Go \<^verbatim>\<open>int\<close>s passed as arguments, JSON numbers
  decoded as \<^verbatim>\<open>float64\<close> and strings. A finite \<^verbatim>\<open>float64\<close> is a real number; \<open>go_int\<close> is
  Go's conversion \<^verbatim>\<open>int(x)\<close>, which discards the fraction. Go's \<^verbatim>\<open>int\<close> is modelled by
  \<open>int\<close>: none of the operations below does arithmetic that could leave the 64-bit range
  on values the player reports.
\<close>

datatype val = VNil | VBool bool | VInt int | VFloat real | VStr string

definition go_int :: "real \<Rightarrow> int" where
  "go_int x = (if 0 \<le> x then \<lfloor>x\<rfloor> else \<lceil>x\<rceil>)"

text \<open>
  An \<^verbatim>\<open>error\<close> is either made by \<^verbatim>\<open>fmt.Errorf\<close> in this package (it carries its message)
  or comes from the transport library.
\<close>

datatype error = Errorf string | TransportError string

text \<open>
  A Go function either returns, panics, or blocks its goroutine. The reasons for a panic
  that occur in this code are a failed type assertion \<^verbatim>\<open>v.(T)\<close>, an index out of range, a
  send on a closed channel and the close of a closed channel.
\<close>

datatype panic = TypeAssertion | IndexOutOfRange | SendOnClosedChannel | CloseOfClosedChannel

datatype 'a outcome = Returned 'a | Panicked panic | Blocked

fun obind :: "('a \<times> 's) outcome \<Rightarrow> ('a \<Rightarrow> 's \<Rightarrow> 'b outcome) \<Rightarrow> 'b outcome" where
  "obind (Returned (x, s)) f = f x s"
| "obind (Panicked p) f = Panicked p"
| "obind Blocked f = Blocked"

text \<open>The type assertions \<^verbatim>\<open>v.(bool)\<close>, \<^verbatim>\<open>v.(float64)\<close> and \<^verbatim>\<open>v.(string)\<close>.\<close>

fun assert_bool :: "val \<Rightarrow> bool option" where
  "assert_bool (VBool b) = Some b"
| "assert_bool _ = None"

fun assert_float64 :: "val \<Rightarrow> real option" where
  "assert_float64 (VFloat x) = Some x"
| "assert_float64 _ = None"

fun assert_string :: "val \<Rightarrow> string option" where
  "assert_string (VStr x) = Some x"
| "assert_string _ = None"

text \<open>\<^verbatim>\<open>strconv.Itoa\<close>: the decimal digits, with a minus sign for a negative number.\<close>

fun digits :: "nat \<Rightarrow> string" where
  "digits n = (if n < 10 then [''0123456789'' ! n]
               else digits (n div 10) @ [''0123456789'' ! (n mod 10)])"

declare digits.simps [simp del]

definition Itoa :: "int \<Rightarrow> string" where
  "Itoa i = (if i < 0 then CHR ''-'' # digits (nat (- i)) else digits (nat i))"

section \<open>Channels\<close>

text \<open>
  A Go channel with a buffer of \<open>cap\<close> elements. A plain send \<^verbatim>\<open>ch <- x\<close> panics on a
  closed channel, enqueues while the buffer has room and blocks otherwise (the model has
  no receiver parked on the channel: the receivers of the two buffered channels of this
  program poll or drain them in steps of their own). A receive in a \<^verbatim>\<open>select\<close> with a
  \<^verbatim>\<open>default\<close> branch takes the oldest element if there is one, yields the zero value with
  \<^verbatim>\<open>ok = false\<close> on a closed and drained channel, and takes the default branch (\<open>None\<close>)
  on an open empty channel. A receive without \<^verbatim>\<open>default\<close> blocks in that last case.
\<close>

record 'a chan =
  buf :: "'a list"
  cap :: nat
  chclosed :: bool

definition make_chan :: "nat \<Rightarrow> 'a chan" where
  "make_chan n = \<lparr>buf = [], cap = n, chclosed = False\<rparr>"

definition chan_send :: "'a chan \<Rightarrow> 'a \<Rightarrow> 'a chan outcome" where
  "chan_send ch x =
     (if chclosed ch then Panicked SendOnClosedChannel
      else if length (buf ch) < cap ch then Returned (ch\<lparr>buf := buf ch @ [x]\<rparr>)
      else Blocked)"

definition chan_try_recv :: "('a::zero) chan \<Rightarrow> (('a \<times> bool) \<times> 'a chan) option" where
  "chan_try_recv ch =
     (case buf ch of
        x # rest \<Rightarrow> Some ((x, True), ch\<lparr>buf := rest\<rparr>)
      | [] \<Rightarrow> if chclosed ch then Some ((0, False), ch) else None)"

definition chan_recv :: "('a::zero) chan \<Rightarrow> (('a \<times> bool) \<times> 'a chan) outcome" where
  "chan_recv ch = (case chan_try_recv ch of Some r \<Rightarrow> Returned r | None \<Rightarrow> Blocked)"

definition chan_close :: "'a chan \<Rightarrow> 'a chan outcome" where
  "chan_close ch =
     (if chclosed ch then Panicked CloseOfClosedChannel
      else Returned (ch\<lparr>chclosed := True\<rparr>))"

section \<open>The transport connection and the program state\<close>

text \<open>
  \<^verbatim>\<open>mpvipc.Connection\<close> is an external library. Its model records whether the connection
  is closed, every request handed to it (\<open>sent\<close>, oldest first), and how the player
  answers: \<open>reply\<close> maps the requests sent so far and the new request to the pair
  \<^verbatim>\<open>(value, err)\<close> that the library returns (for \<^verbatim>\<open>Set\<close> only the error is used).
  "The transport is invoked" means that \<open>sent\<close> grows.
\<close>

datatype request = ReqCall "val list" | ReqGet string | ReqSet string val

record Connection =
  isClosed :: bool
  sent :: "request list"
  reply :: "request list \<Rightarrow> request \<Rightarrow> val \<times> error option"

record Connector =
  conn :: Connection

text \<open>
  The package-level variables of \<^verbatim>\<open>lib/mpv_player.go\<close>, together with the effects that
  leave the process: \<open>delivered\<close> lists the titles a consumer has received from the
  unbuffered channel \<^verbatim>\<open>MPVErrors\<close> (\<open>MPVErrorsClosed\<close> is its closed flag), \<open>removed\<close>
  lists the paths handed to \<^verbatim>\<open>os.Remove\<close>. \<^verbatim>\<open>sockPath\<close> is declared elsewhere in the
  package. The receiver \<^verbatim>\<open>c\<close> of every method is the one live connector \<^verbatim>\<open>mpvctl\<close>.
\<close>

record state =
  mpvctl :: Connector
  loop :: string
  sockPath :: string
  monitorMap :: "int \<rightharpoonup> string"
  mpvInfoChan :: "int chan"
  mpvErrorChan :: "int chan"
  MPVErrorsClosed :: bool
  delivered :: "string list"
  removed :: "string list"

definition IsClosed :: "state \<Rightarrow> bool" where
  "IsClosed s = isClosed (conn (mpvctl s))"

text \<open>\<^verbatim>\<open>c.conn.Call\<close>, \<^verbatim>\<open>c.conn.Get\<close>, \<^verbatim>\<open>c.conn.Set\<close>: the request is recorded and answered.\<close>

definition transport :: "request \<Rightarrow> state \<Rightarrow> (val \<times> error option) \<times> state" where
  "transport r s =
     (let c = conn (mpvctl s)
      in (reply c (sent c) r,
          s\<lparr>mpvctl := (mpvctl s)\<lparr>conn := c\<lparr>sent := sent c @ [r]\<rparr>\<rparr>\<rparr>))"

definition Call :: "val list \<Rightarrow> state \<Rightarrow> (val \<times> error option) \<times> state" where
  "Call args s =
     (if IsClosed s then ((VNil, Some (Errorf ''Connection closed'')), s)
      else transport (ReqCall args) s)"

definition Get :: "string \<Rightarrow> state \<Rightarrow> (val \<times> error option) \<times> state" where
  "Get prop s =
     (if IsClosed s then ((VNil, Some (Errorf ''Connection closed'')), s)
      else transport (ReqGet prop) s)"

definition Set :: "string \<Rightarrow> val \<Rightarrow> state \<Rightarrow> error option \<times> state" where
  "Set prop v s =
     (if IsClosed s then (Some (Errorf ''Connection closed''), s)
      else (let (r, s') = transport (ReqSet prop v) s in (snd r, s')))"

section \<open>The playback monitor's map\<close>

text \<open>
  \<^verbatim>\<open>addToMonitor\<close> polls the queue of started-file identifiers once: when the receive
  yields (an identifier, or the zero value of a closed and drained channel, since \<^verbatim>\<open>ok\<close>
  is discarded) the name is stored under it, otherwise the \<^verbatim>\<open>default\<close> branch drops the
  name. \<^verbatim>\<open>clearMonitor\<close> replaces the map by a fresh one.
\<close>

definition addToMonitor :: "string \<Rightarrow> state \<Rightarrow> state" where
  "addToMonitor name s =
     (case chan_try_recv (mpvInfoChan s) of
        Some ((ident, ok), ch) \<Rightarrow> s\<lparr>monitorMap := (monitorMap s)(ident \<mapsto> name), mpvInfoChan := ch\<rparr>
      | None \<Rightarrow> s)"

definition clearMonitor :: "state \<Rightarrow> state" where
  "clearMonitor s = s\<lparr>monitorMap := Map.empty\<rparr>"

section \<open>Connector operations\<close>

definition WaitUntilClosed :: "state \<Rightarrow> state outcome" where
  "WaitUntilClosed s = (if IsClosed s then Returned s else Blocked)"

definition MPVStop :: "bool \<Rightarrow> state \<Rightarrow> state" where
  "MPVStop rm s =
     (if IsClosed s then s
      else (let s1 = snd (Call [VStr ''quit''] s)
            in if \<not> rm then s1 else s1\<lparr>removed := removed s1 @ [sockPath s1]\<rparr>))"

subsection \<open>Load operations\<close>

text \<open>
  \<^verbatim>\<open>LoadFile\<close> is variadic in \<^verbatim>\<open>files\<close>; \<^verbatim>\<open>files[0]\<close> is read when the arguments of the
  call are built, so an empty \<^verbatim>\<open>files\<close> panics before anything is sent. The result is the
  returned \<^verbatim>\<open>error\<close> (\<open>None\<close> for \<^verbatim>\<open>nil\<close>).
\<close>

definition LoadFile :: "string \<Rightarrow> int \<Rightarrow> string list \<Rightarrow> state \<Rightarrow> (error option \<times> state) outcome" where
  "LoadFile title duration files s =
     (let options = ''title='' @ [CHR 0x27] @ title @ [CHR 0x27] @ '',length='' @ Itoa duration;
          options = (if length files = 2 then options @ '',audio-file='' @ files ! 1 else options)
      in case files of
           [] \<Rightarrow> Panicked IndexOutOfRange
         | file0 # _ \<Rightarrow>
             (let ((v, err), s1) = Call [VStr ''loadfile'', VStr file0, VStr ''append-play'', VStr options] s
              in if err \<noteq> None then Returned (Some (Errorf (''Unable to load '' @ title)), s1)
                 else Returned (None, addToMonitor title s1)))"

definition LoadPlaylist :: "string \<Rightarrow> bool \<Rightarrow> state \<Rightarrow> error option \<times> state" where
  "LoadPlaylist plpath replace s =
     (let param = (if replace then ''replace'' else ''append-play'');
          s0 = (if replace then clearMonitor s else s);
          ((v, err), s1) = Call [VStr ''loadlist'', VStr plpath, VStr param] s0
      in if err \<noteq> None then (Some (Errorf (''Unable to load '' @ plpath)), s1)
         else (None, addToMonitor ''playlist entry'' s1))"

subsection \<open>State queries\<close>

text \<open>
  \<^verbatim>\<open>IsPaused\<close>, \<^verbatim>\<open>IsShuffle\<close>, \<^verbatim>\<open>IsEOF\<close> and \<^verbatim>\<open>IsIdle\<close> have one shape: get a property, answer
  \<^verbatim>\<open>false\<close> on an error, assert \<^verbatim>\<open>bool\<close> otherwise. \<^verbatim>\<open>TimePosition\<close>, \<^verbatim>\<open>PlaylistCount\<close> and
  \<^verbatim>\<open>PlaylistPos\<close> answer 0 on an error and convert the asserted \<^verbatim>\<open>float64\<close> otherwise.
\<close>

definition bool_property :: "string \<Rightarrow> state \<Rightarrow> (bool \<times> state) outcome" where
  "bool_property prop s =
     (let ((v, err), s1) = Get prop s
      in if err \<noteq> None then Returned (False, s1)
         else case assert_bool v of
                None \<Rightarrow> Panicked TypeAssertion
              | Some b \<Rightarrow> Returned (b, s1))"

definition int_property :: "string \<Rightarrow> state \<Rightarrow> (int \<times> state) outcome" where
  "int_property prop s =
     (let ((v, err), s1) = Get prop s
      in if err \<noteq> None then Returned (0, s1)
         else case assert_float64 v of
                None \<Rightarrow> Panicked TypeAssertion
              | Some x \<Rightarrow> Returned (go_int x, s1))"

definition IsPaused :: "state \<Rightarrow> (bool \<times> state) outcome" where
  "IsPaused = bool_property ''pause''"

definition IsShuffle :: "state \<Rightarrow> (bool \<times> state) outcome" where
  "IsShuffle = bool_property ''shuffle''"

definition IsEOF :: "state \<Rightarrow> (bool \<times> state) outcome" where
  "IsEOF = bool_property ''eof-reached''"

definition IsIdle :: "state \<Rightarrow> (bool \<times> state) outcome" where
  "IsIdle = bool_property ''core-idle''"

definition MediaType :: "state \<Rightarrow> string \<times> state" where
  "MediaType s =
     (let ((v, err), s1) = Get ''height'' s
      in if err \<noteq> None then (''Audio'', s1) else (''Video'', s1))"

definition LoopType :: "bool \<Rightarrow> state \<Rightarrow> string \<times> state" where
  "LoopType file s =
     (let ((lf, err), s1) = Call [VStr ''get_property_string'', VStr ''loop-file''] s
      in if err \<noteq> None then ([], s1)
         else (let ((lp, err2), s2) = Call [VStr ''get_property_string'', VStr ''loop-playlist''] s1
               in if err2 \<noteq> None then ([], s2)
                  else if lf = VStr ''yes'' \<or> lf = VStr ''inf'' then (''R-F'', s2)
                  else if lp = VStr ''yes'' \<or> lp = VStr ''inf'' then (''R-P'', s2)
                  else ([], s2)))"

definition TimePosition :: "state \<Rightarrow> (int \<times> state) outcome" where
  "TimePosition = int_property ''playback-time''"

text \<open>\<^verbatim>\<open>strconv.Atoi\<close> belongs to Go's library; \<open>Duration\<close> takes it as \<open>atoi\<close>.\<close>

definition Duration :: "(string \<Rightarrow> int option) \<Rightarrow> state \<Rightarrow> (int \<times> state) outcome" where
  "Duration atoi s =
     (let ((duration, err), s1) = Get ''duration'' s
      in if err \<noteq> None then
           (let ((duration, err), s2) = Get ''options/length'' s1
            in if err \<noteq> None then Returned (0, s2)
               else case assert_string duration of
                      None \<Rightarrow> Panicked TypeAssertion
                    | Some str \<Rightarrow>
                        (case atoi str of
                           None \<Rightarrow> Returned (0, s2)
                         | Some time \<Rightarrow> Returned (time, s2)))
         else case assert_float64 duration of
                None \<Rightarrow> Panicked TypeAssertion
              | Some x \<Rightarrow> Returned (go_int x, s1))"

definition PlaylistData :: "state \<Rightarrow> (string \<times> state) outcome" where
  "PlaylistData s =
     (let ((list, err), s1) = Call [VStr ''get_property_string'', VStr ''playlist''] s
      in if err \<noteq> None then Returned ([], s1)
         else case assert_string list of
                None \<Rightarrow> Panicked TypeAssertion
              | Some str \<Rightarrow> Returned (str, s1))"

definition PlaylistCount :: "state \<Rightarrow> (int \<times> state) outcome" where
  "PlaylistCount = int_property ''playlist-count''"

definition PlaylistPos :: "state \<Rightarrow> (int \<times> state) outcome" where
  "PlaylistPos = int_property ''playlist-playing-pos''"

definition PlaylistTitle :: "int \<Rightarrow> state \<Rightarrow> (string \<times> state) outcome" where
  "PlaylistTitle pos s =
     (let ((pltitle, err), s1) =
            Call [VStr ''get_property_string'', VStr (''playlist/'' @ Itoa pos @ ''/title'')] s
      in if pltitle = VNil then
           (let ((plfile, err), s2) =
                  Call [VStr ''get_property_string'', VStr (''playlist/'' @ Itoa pos @ ''/filename'')] s1
            in if plfile = VNil then Returned (''-'', s2)
               else case assert_string plfile of
                      None \<Rightarrow> Panicked TypeAssertion
                    | Some str \<Rightarrow> Returned (str, s2))
         else case assert_string pltitle of
                None \<Rightarrow> Panicked TypeAssertion
              | Some str \<Rightarrow> Returned (str, s1))"

subsection \<open>Mutators\<close>

text \<open>
  The mutators have no result: the model returns the state they leave. Those that first
  query the player (\<^verbatim>\<open>PlaylistPlayLatest\<close>, \<^verbatim>\<open>CyclePaused\<close>) can panic in the query's type
  assertion.
\<close>

definition SetPlaylistPos :: "int \<Rightarrow> state \<Rightarrow> state" where
  "SetPlaylistPos pos s = snd (Set ''playlist-pos'' (VInt pos) s)"

definition PlaylistDelete :: "int \<Rightarrow> state \<Rightarrow> state" where
  "PlaylistDelete entry s = snd (Call [VStr ''playlist-remove'', VInt entry] s)"

definition PlaylistMove :: "int \<Rightarrow> int \<Rightarrow> state \<Rightarrow> state" where
  "PlaylistMove a b s = snd (Call [VStr ''playlist-move'', VInt a, VInt b] s)"

definition PlaylistClear :: "state \<Rightarrow> state" where
  "PlaylistClear s = clearMonitor (snd (Call [VStr ''playlist-clear''] s))"

definition Play :: "state \<Rightarrow> state" where
  "Play s = snd (Set ''pause'' (VStr ''no'') s)"

definition PlaylistPlayLatest :: "state \<Rightarrow> state outcome" where
  "PlaylistPlayLatest s =
     obind (PlaylistCount s)
       (\<lambda>count s1. Returned (Play (snd (Set ''playlist-pos'' (VInt (count - 1)) s1))))"

definition CyclePaused :: "state \<Rightarrow> state outcome" where
  "CyclePaused s =
     obind (IsEOF s) (\<lambda>eof s1.
       if eof then
         obind (IsPaused s1) (\<lambda>paused s2.
           if paused then
             Returned (snd (Call [VStr ''cycle'', VStr ''pause'']
                        (snd (Call [VStr ''seek'', VInt 0, VStr ''absolute-percent''] s2))))
           else Returned (snd (Call [VStr ''cycle'', VStr ''pause''] s2)))
       else Returned (snd (Call [VStr ''cycle'', VStr ''pause''] s1)))"

definition CycleShuffle :: "state \<Rightarrow> state" where
  "CycleShuffle s = snd (Call [VStr ''cycle'', VStr ''shuffle''] s)"

definition CycleLoop :: "state \<Rightarrow> state" where
  "CycleLoop s =
     (if loop s = [] then
        snd (Set ''loop-playlist'' (VStr ''no'')
          (snd (Set ''loop-file'' (VStr ''yes'') (s\<lparr>loop := ''loop-file''\<rparr>))))
      else if loop s = ''loop-file'' then
        snd (Set ''loop-playlist'' (VStr ''yes'')
          (snd (Set ''loop-file'' (VStr ''no'') (s\<lparr>loop := ''loop-playlist''\<rparr>))))
      else if loop s = ''loop-playlist'' then
        snd (Set ''loop-playlist'' (VStr ''no'')
          (snd (Set ''loop-file'' (VStr ''no'') (s\<lparr>loop := []\<rparr>))))
      else s)"

definition Stop :: "state \<Rightarrow> state" where
  "Stop s = snd (Call [VStr ''stop''] s)"

definition SeekForward :: "state \<Rightarrow> state" where
  "SeekForward s = snd (Call [VStr ''seek'', VInt 1] s)"

definition SeekBackward :: "state \<Rightarrow> state" where
  "SeekBackward s = snd (Call [VStr ''seek'', VInt (- 1)] s)"

definition Next :: "state \<Rightarrow> state" where
  "Next s = snd (Call [VStr ''playlist-next''] s)"

definition Prev :: "state \<Rightarrow> state" where
  "Prev s = snd (Call [VStr ''playlist-prev''] s)"

section \<open>The event listener and the monitor task\<close>

text \<open>
  An event of the transport has a name and a key-value payload (a decoded JSON object,
  kept as an association list); reading a missing key gives \<^verbatim>\<open>nil\<close>.
\<close>

record event =
  Name :: string
  ExtraData :: "(string \<times> val) list"

definition extra :: "event \<Rightarrow> string \<Rightarrow> val" where
  "extra e k = (case map_of (ExtraData e) k of None \<Rightarrow> VNil | Some v \<Rightarrow> v)"

text \<open>
  The closure \<^verbatim>\<open>shutdown\<close> of \<^verbatim>\<open>eventListener\<close>: it closes the connection and the three
  channels. (Its last statement hands a token to the library's own event goroutine and
  touches nothing of this program's state.)
\<close>

definition shutdown :: "state \<Rightarrow> state outcome" where
  "shutdown s =
     (let s1 = s\<lparr>mpvctl := (mpvctl s)\<lparr>conn := (conn (mpvctl s))\<lparr>isClosed := True\<rparr>\<rparr>\<rparr>
      in if MPVErrorsClosed s1 then Panicked CloseOfClosedChannel
         else case chan_close (mpvInfoChan s1) of
                Panicked p \<Rightarrow> Panicked p
              | Blocked \<Rightarrow> Blocked
              | Returned ic \<Rightarrow>
                  (case chan_close (mpvErrorChan s1) of
                     Panicked p \<Rightarrow> Panicked p
                   | Blocked \<Rightarrow> Blocked
                   | Returned ec \<Rightarrow>
                       Returned (s1\<lparr>MPVErrorsClosed := True, mpvInfoChan := ic, mpvErrorChan := ec\<rparr>)))"

text \<open>
  One iteration of the listener's loop, on the next delivery of the event channel
  (\<open>None\<close>: the channel was closed). The result says whether the loop goes on. Both
  sends are plain channel sends.
\<close>

definition send_info :: "int \<Rightarrow> state \<Rightarrow> (bool \<times> state) outcome" where
  "send_info i s =
     (case chan_send (mpvInfoChan s) i of
        Returned ch \<Rightarrow> Returned (True, s\<lparr>mpvInfoChan := ch\<rparr>)
      | Panicked p \<Rightarrow> Panicked p
      | Blocked \<Rightarrow> Blocked)"

definition send_error :: "int \<Rightarrow> state \<Rightarrow> (bool \<times> state) outcome" where
  "send_error i s =
     (case chan_send (mpvErrorChan s) i of
        Returned ch \<Rightarrow> Returned (True, s\<lparr>mpvErrorChan := ch\<rparr>)
      | Panicked p \<Rightarrow> Panicked p
      | Blocked \<Rightarrow> Blocked)"

definition stop_listening :: "state \<Rightarrow> (bool \<times> state) outcome" where
  "stop_listening s =
     (case shutdown s of
        Returned s' \<Rightarrow> Returned (False, s')
      | Panicked p \<Rightarrow> Panicked p
      | Blocked \<Rightarrow> Blocked)"

definition listenerStep :: "event option \<Rightarrow> state \<Rightarrow> (bool \<times> state) outcome" where
  "listenerStep delivery s =
     (case delivery of
        None \<Rightarrow> stop_listening s
      | Some ev \<Rightarrow>
          if Name ev = ''start-file'' then
            (if length (ExtraData ev) > 0 then
               (case assert_float64 (extra ev ''playlist_entry_id'') of
                  None \<Rightarrow> Panicked TypeAssertion
                | Some x \<Rightarrow> send_info (go_int x) s)
             else Returned (True, s))
          else if Name ev = ''end-file'' then
            (if length (ExtraData ev) > 0 then
               (let err = extra ev ''file_error'';
                    v = extra ev ''playlist_entry_id''
                in if err \<noteq> VNil \<and> v \<noteq> VNil then
                     (case assert_string err of
                        None \<Rightarrow> Panicked TypeAssertion
                      | Some msg \<Rightarrow>
                          if msg \<noteq> [] then
                            (case assert_float64 v of
                               None \<Rightarrow> Panicked TypeAssertion
                             | Some x \<Rightarrow> send_error (go_int x) s)
                          else Returned (True, s))
                   else Returned (True, s))
             else Returned (True, s))
          else if Name ev = ''shutdown'' then stop_listening s
          else Returned (True, s))"

text \<open>
  One iteration of \<^verbatim>\<open>monitorStart\<close>: a blocking receive from the error queue; on an
  identifier, the title found in the map (the empty string when there is none) is taken
  out and offered on \<^verbatim>\<open>MPVErrors\<close> in a \<^verbatim>\<open>select\<close> with \<^verbatim>\<open>default\<close>. That channel is
  unbuffered, so the send goes through exactly when a consumer is receiving at that
  moment (\<open>consumer\<close>); a send case on a closed channel panics.
\<close>

definition monitorStep :: "bool \<Rightarrow> state \<Rightarrow> (bool \<times> state) outcome" where
  "monitorStep consumer s =
     (case chan_recv (mpvErrorChan s) of
        Blocked \<Rightarrow> Blocked
      | Panicked p \<Rightarrow> Panicked p
      | Returned ((ident, ok), ch) \<Rightarrow>
          if \<not> ok then Returned (False, s\<lparr>mpvErrorChan := ch\<rparr>)
          else (let title = (case monitorMap s ident of None \<Rightarrow> [] | Some t \<Rightarrow> t);
                    s1 = s\<lparr>mpvErrorChan := ch, monitorMap := (monitorMap s)(ident := None)\<rparr>
                in if MPVErrorsClosed s1 then Panicked SendOnClosedChannel
                   else if consumer then Returned (True, s1\<lparr>delivered := delivered s1 @ [title]\<rparr>)
                   else Returned (True, s1)))"

text \<open>
  The state \<^verbatim>\<open>MPVStart\<close> leaves once \<^verbatim>\<open>MPVConnect\<close> has returned the connector: fresh
  channels (the two queues hold 100 identifiers), an empty map, and three key bindings
  sent to the player; \<open>path\<close> is the value \<^verbatim>\<open>sockPath\<close> has by then. The listener then
  subscribes to the player's shutdown property.
\<close>

definition MPVStart :: "Connector \<Rightarrow> string \<Rightarrow> state" where
  "MPVStart c path =
     (let s = \<lparr>mpvctl = c, loop = [], sockPath = path, monitorMap = Map.empty,
               mpvInfoChan = make_chan 100, mpvErrorChan = make_chan 100,
               MPVErrorsClosed = False, delivered = [], removed = []\<rparr>;
          s = snd (Call [VStr ''keybind'', VStr ''q'', VStr []] s);
          s = snd (Call [VStr ''keybind'', VStr ''Ctrl+q'', VStr []] s);
          s = snd (Call [VStr ''keybind'', VStr ''Shift+q'', VStr []] s)
      in s)"

definition eventListener_init :: "state \<Rightarrow> state" where
  "eventListener_init s = snd (Call [VStr ''observe_property'', VInt 1, VStr ''shutdown''] s)"

subsection \<open>Interleavings\<close>

text \<open>
  The three tasks (callers of the connector, the listener, the monitor) interleave. A
  schedule is a list of atomic actions; \<open>listening\<close> and \<open>monitoring\<close> say whether the two
  background tasks are still running, and an action of a task that has returned does
  nothing.
\<close>

datatype action =
    DoLoadFile string int "string list"
  | DoLoadPlaylist string bool
  | DoPlaylistClear
  | Deliver "event option"
  | MonitorTurn bool

record system =
  prog :: state
  listening :: bool
  monitoring :: bool

fun step :: "action \<Rightarrow> system \<Rightarrow> system outcome" where
  "step (DoLoadFile title duration files) y =
     (case LoadFile title duration files (prog y) of
        Returned (err, s) \<Rightarrow> Returned (y\<lparr>prog := s\<rparr>)
      | Panicked p \<Rightarrow> Panicked p
      | Blocked \<Rightarrow> Blocked)"
| "step (DoLoadPlaylist plpath replace) y =
     Returned (y\<lparr>prog := snd (LoadPlaylist plpath replace (prog y))\<rparr>)"
| "step DoPlaylistClear y = Returned (y\<lparr>prog := PlaylistClear (prog y)\<rparr>)"
| "step (Deliver d) y =
     (if \<not> listening y then Returned y
      else case listenerStep d (prog y) of
             Returned (go, s) \<Rightarrow> Returned (y\<lparr>prog := s, listening := go\<rparr>)
           | Panicked p \<Rightarrow> Panicked p
           | Blocked \<Rightarrow> Blocked)"
| "step (MonitorTurn consumer) y =
     (if \<not> monitoring y then Returned y
      else case monitorStep consumer (prog y) of
             Returned (go, s) \<Rightarrow> Returned (y\<lparr>prog := s, monitoring := go\<rparr>)
           | Panicked p \<Rightarrow> Panicked p
           | Blocked \<Rightarrow> Blocked)"

fun run :: "action list \<Rightarrow> system \<Rightarrow> system outcome" where
  "run [] y = Returned y"
| "run (a # as) y =
     (case step a y of
        Returned y' \<Rightarrow> run as y'
      | Panicked p \<Rightarrow> Panicked p
      | Blocked \<Rightarrow> Blocked)"

section \<open>The process launcher\<close>

text \<open>
  \<^verbatim>\<open>MPVConnect\<close> starts the player when \<^verbatim>\<open>mpvexec\<close> is set and then opens the socket in a
  counted loop. What it does to the outside is kept as a list of effects. The outside
  answers through \<open>startOk\<close> (does \<^verbatim>\<open>mpvcmd.Start\<close> succeed) and \<open>openOk\<close> (does the
  \<open>k\<close>-th call of \<^verbatim>\<open>conn.Open\<close>, counted from 0, succeed); \<open>newConn\<close> is the connection
  \<^verbatim>\<open>mpvipc.NewConnection\<close> makes, and \<open>connretries\<close> the configured budget.
\<close>

datatype effect = StartProcess | Open | Sleep nat

function connect_loop :: "(nat \<Rightarrow> bool) \<Rightarrow> int \<Rightarrow> int \<Rightarrow> effect list \<Rightarrow> bool \<times> effect list" where
  "connect_loop openOk connretries i effs =
     (if i < connretries then
        (if \<not> openOk (nat i) then connect_loop openOk connretries (i + 1) (effs @ [Open, Sleep 1])
         else (True, effs @ [Open]))
      else (False, effs))"
  by pat_completeness auto
termination
  by (relation "measure (\<lambda>(openOk, connretries, i, effs). nat (connretries - i))") auto

declare connect_loop.simps [simp del]

definition MPVConnect ::
  "bool \<Rightarrow> (nat \<Rightarrow> bool) \<Rightarrow> int \<Rightarrow> Connection \<Rightarrow> bool \<Rightarrow> (error + Connector) \<times> effect list" where
  "MPVConnect startOk openOk connretries newConn mpvexec =
     (if mpvexec \<and> \<not> startOk then (Inl (Errorf ''Error: Could not start mpv''), [StartProcess])
      else (let effs = (if mpvexec then [StartProcess] else []);
                (connected, effs') = connect_loop openOk connretries 0 effs
            in if connected then (Inr \<lparr>conn = newConn\<lparr>isClosed := False\<rparr>\<rparr>, effs')
               else (Inl (Errorf ''Error: Could not connect to socket''), effs')))"

definition opens :: "effect list \<Rightarrow> nat" where
  "opens effs = length (filter (\<lambda>e. e = Open) effs)"

fun seconds :: "effect \<Rightarrow> nat" where
  "seconds (Sleep n) = n"
| "seconds _ = 0"

definition slept :: "effect list \<Rightarrow> nat" where
  "slept effs = sum_list (map seconds effs)"

section \<open>The lifecycle watcher\<close>

text \<open>
  \<^verbatim>\<open>ui/ui.go\<close>: \<^verbatim>\<open>detectClose\<close> is a channel nobody sends on, so only its closed flag
  matters. \<^verbatim>\<open>StopPlayer\<close>, \<^verbatim>\<open>App.Stop\<close>, \<^verbatim>\<open>os.Remove\<close> and \<^verbatim>\<open>fmt.Printf\<close> act outside this
  file; the model logs them in the order they are called. \<^verbatim>\<open>lib.ConfigPath\<close> is defined
  elsewhere in the repository and is taken as a parameter.
\<close>

datatype ui_effect = StopPlayer bool | AppStop | Remove string | Printf string

record ui =
  detectCloseClosed :: bool
  uilog :: "ui_effect list"

definition StopUI :: "bool \<Rightarrow> ui \<Rightarrow> ui outcome" where
  "StopUI closeInstances u =
     (if detectCloseClosed u then Panicked CloseOfClosedChannel
      else Returned (u\<lparr>detectCloseClosed := True,
                       uilog := uilog u @ [StopPlayer closeInstances, AppStop]\<rparr>))"

definition detectMPVClose :: "(string \<Rightarrow> error + string) \<Rightarrow> state \<Rightarrow> ui \<Rightarrow> ui outcome" where
  "detectMPVClose ConfigPath s u =
     (case WaitUntilClosed s of
        Blocked \<Rightarrow> Blocked
      | Panicked p \<Rightarrow> Panicked p
      | Returned s' \<Rightarrow>
          if detectCloseClosed u then Returned u
          else (case StopUI True u of
                  Blocked \<Rightarrow> Blocked
                | Panicked p \<Rightarrow> Panicked p
                | Returned u1 \<Rightarrow>
                    (let u2 = (case ConfigPath ''socket'' of
                                 Inr socket \<Rightarrow> u1\<lparr>uilog := uilog u1 @ [Remove socket]\<rparr>
                               | Inl err \<Rightarrow> u1)
                     in Returned (u2\<lparr>uilog := uilog u2 @ [Printf (CHR 0x0D # ''MPV has exited'')]\<rparr>))))"

section \<open>Observing the transport\<close>

text \<open>
  \<open>requests s\<close> is everything handed to the transport so far, \<open>answer s r\<close> what the
  player would answer to \<open>r\<close> next.
\<close>

definition requests :: "state \<Rightarrow> request list" where
  "requests s = sent (conn (mpvctl s))"

definition answer :: "state \<Rightarrow> request \<Rightarrow> val \<times> error option" where
  "answer s r = reply (conn (mpvctl s)) (requests s) r"

text \<open>Three players for concrete runs: one accepts every request, one rejects every
  request, one has gone away.\<close>

definition accepting :: Connection where
  "accepting = \<lparr>isClosed = False, sent = [], reply = (\<lambda>h r. (VNil, None))\<rparr>"

definition rejecting :: Connection where
  "rejecting = \<lparr>isClosed = False, sent = [], reply = (\<lambda>h r. (VNil, Some (TransportError ''rejected'')))\<rparr>"

definition gone :: Connection where
  "gone = \<lparr>isClosed = True, sent = [], reply = (\<lambda>h r. (VNil, None))\<rparr>"

definition session :: "Connection \<Rightarrow> state" where
  "session c = eventListener_init (MPVStart \<lparr>conn = c\<rparr> ''/tmp/invidtui.sock'')"

text \<open>
  \<open>issued s s'\<close> is what was handed to the transport between \<open>s\<close> and \<open>s'\<close>, and
  \<open>commands\<close> keeps the argument lists of the \<^verbatim>\<open>Call\<close> requests among them.
\<close>

definition issued :: "state \<Rightarrow> state \<Rightarrow> request list" where
  "issued s s' = drop (length (requests s)) (requests s')"

fun commands :: "request list \<Rightarrow> val list list" where
  "commands [] = []"
| "commands (ReqCall args # rs) = args # commands rs"
| "commands (_ # rs) = commands rs"

text \<open>A player that has reached the end of its file and is paused: every boolean
  property reads \<^verbatim>\<open>true\<close>.\<close>

definition ended :: Connection where
  "ended = \<lparr>isClosed = False, sent = [],
             reply = (\<lambda>h r. case r of ReqGet p \<Rightarrow> (VBool True, None) | _ \<Rightarrow> (VNil, None))\<rparr>"

text \<open>
  The two events the monitor reacts to, as mpv sends them: the identifier arrives as a
  JSON number. \<open>booted c\<close> is the program right after start-up on connection \<open>c\<close>, with
  both background tasks running.
\<close>

definition start_file :: "int \<Rightarrow> event" where
  "start_file i = \<lparr>Name = ''start-file'', ExtraData = [(''playlist_entry_id'', VFloat (of_int i))]\<rparr>"

definition end_file :: "int \<Rightarrow> string \<Rightarrow> event" where
  "end_file i msg =
     \<lparr>Name = ''end-file'',
      ExtraData = [(''reason'', VStr ''error''), (''playlist_entry_id'', VFloat (of_int i)),
                   (''file_error'', VStr msg)]\<rparr>"

definition booted :: "Connection \<Rightarrow> system" where
  "booted c = \<lparr>prog = session c, listening = True, monitoring = True\<rparr>"

text \<open>Readings of the outcome of a run: the map entry of an identifier, the queue of
  started identifiers, and the titles consumers have received.\<close>

definition tracked :: "system outcome \<Rightarrow> int \<Rightarrow> string option option" where
  "tracked r i = (case r of Returned y \<Rightarrow> Some (monitorMap (prog y) i) | _ \<Rightarrow> None)"

definition pending :: "system outcome \<Rightarrow> int list option" where
  "pending r = (case r of Returned y \<Rightarrow> Some (buf (mpvInfoChan (prog y))) | _ \<Rightarrow> None)"

definition notified :: "system outcome \<Rightarrow> string list option" where
  "notified r = (case r of Returned y \<Rightarrow> Some (delivered (prog y)) | _ \<Rightarrow> None)"

text \<open>
  The transport call of an operation is its call of the primitive \<^verbatim>\<open>Call\<close>, \<^verbatim>\<open>Get\<close> or
  \<^verbatim>\<open>Set\<close>. It errors for the request \<open>r\<close> when the connection is closed or the player
  answers \<open>r\<close> with an error (\<open>call_fails\<close>). \<open>after_sending s rs\<close> is the record of the
  transport once an operation started in \<open>s\<close> has made the calls \<open>rs\<close>: on a closed
  connection none of them is handed over.
\<close>

definition call_fails :: "state \<Rightarrow> request \<Rightarrow> bool" where
  "call_fails s r = (IsClosed s \<or> snd (answer s r) \<noteq> None)"

definition after_sending :: "state \<Rightarrow> request list \<Rightarrow> request list" where
  "after_sending s rs = (if IsClosed s then requests s else requests s @ rs)"

text \<open>The requests the two load operations build from their arguments.\<close>

definition loadfile_call :: "string \<Rightarrow> int \<Rightarrow> string list \<Rightarrow> request" where
  "loadfile_call title duration files =
     ReqCall [VStr ''loadfile'', VStr (hd files), VStr ''append-play'',
              VStr (''title='' @ [CHR 0x27] @ title @ [CHR 0x27] @ '',length='' @ Itoa duration
                    @ (if length files = 2 then '',audio-file='' @ files ! 1 else []))]"

definition loadlist_call :: "string \<Rightarrow> bool \<Rightarrow> request" where
  "loadlist_call plpath replace =
     ReqCall [VStr ''loadlist'', VStr plpath, VStr (if replace then ''replace'' else ''append-play'')]"

text \<open>
  The statements of \<^verbatim>\<open>LoadFile\<close> are not one atomic step: when \<^verbatim>\<open>c.Call\<close> has returned
  and before \<^verbatim>\<open>addToMonitor\<close> runs, another task may take a turn (the map's mutex is
  taken only inside \<^verbatim>\<open>addToMonitor\<close>). \<open>LoadFile_between turn\<close> is \<^verbatim>\<open>LoadFile\<close> with the
  step \<open>turn\<close> of another task run at that point; with \<open>Returned\<close> for \<open>turn\<close> (nothing runs
  in between) it is \<open>LoadFile\<close>. \<open>reported\<close> and \<open>registered\<close> read the returned error and
  the map entry of an identifier from the outcome of a load.
\<close>

definition LoadFile_between ::
  "(state \<Rightarrow> state outcome) \<Rightarrow> string \<Rightarrow> int \<Rightarrow> string list \<Rightarrow> state
   \<Rightarrow> (error option \<times> state) outcome" where
  "LoadFile_between turn title duration files s =
     (let options = ''title='' @ [CHR 0x27] @ title @ [CHR 0x27] @ '',length='' @ Itoa duration;
          options = (if length files = 2 then options @ '',audio-file='' @ files ! 1 else options)
      in case files of
           [] \<Rightarrow> Panicked IndexOutOfRange
         | file0 # _ \<Rightarrow>
             (let ((v, err), s1) = Call [VStr ''loadfile'', VStr file0, VStr ''append-play'', VStr options] s
              in if err \<noteq> None then Returned (Some (Errorf (''Unable to load '' @ title)), s1)
                 else (case turn s1 of
                         Returned s2 \<Rightarrow> Returned (None, addToMonitor title s2)
                       | Panicked p \<Rightarrow> Panicked p
                       | Blocked \<Rightarrow> Blocked)))"

definition reported :: "(error option \<times> state) outcome \<Rightarrow> error option option" where
  "reported r = (case r of Returned (e, s) \<Rightarrow> Some e | _ \<Rightarrow> None)"

definition registered :: "(error option \<times> state) outcome \<Rightarrow> int \<Rightarrow> string option option" where
  "registered r i = (case r of Returned (e, s) \<Rightarrow> Some (monitorMap s i) | _ \<Rightarrow> None)"

text \<open>A socket that never becomes connectable.\<close>

definition never_opens :: "nat \<Rightarrow> bool" where
  "never_opens k = False"

section \<open>Properties\<close>

subsection \<open>The primitives\<close>

lemmas eval_defs = booted_def session_def eventListener_init_def MPVStart_def Call_def transport_def
      IsClosed_def accepting_def Let_def LoadFile_def addToMonitor_def chan_try_recv_def
      make_chan_def listenerStep_def start_file_def end_file_def extra_def go_int_def
      send_info_def send_error_def chan_send_def monitorStep_def chan_recv_def
      tracked_def pending_def notified_def

lemma Call_closed:
  "IsClosed s \<Longrightarrow> Call args s = ((VNil, Some (Errorf ''Connection closed'')), s)"
  by (simp add: Call_def)

lemma Get_closed:
  "IsClosed s \<Longrightarrow> Get prop s = ((VNil, Some (Errorf ''Connection closed'')), s)"
  by (simp add: Get_def)

lemma Set_closed:
  "IsClosed s \<Longrightarrow> Set prop v s = (Some (Errorf ''Connection closed''), s)"
  by (simp add: Set_def)

lemma Call_open: "\<not> IsClosed s \<Longrightarrow> Call args s = transport (ReqCall args) s"
  by (simp add: Call_def)

lemma Get_open: "\<not> IsClosed s \<Longrightarrow> Get prop s = transport (ReqGet prop) s"
  by (simp add: Get_def)

lemma Set_open:
  "\<not> IsClosed s \<Longrightarrow>
   Set prop v s = (snd (fst (transport (ReqSet prop v) s)), snd (transport (ReqSet prop v) s))"
  by (simp add: Set_def split_def Let_def)

lemma transport_fst: "fst (transport r s) = answer s r"
  by (simp add: transport_def answer_def requests_def Let_def)

lemma transport_frame:
  "requests (snd (transport r s)) = requests s @ [r]"
  "IsClosed (snd (transport r s)) = IsClosed s"
  "loop (snd (transport r s)) = loop s"
  "monitorMap (snd (transport r s)) = monitorMap s"
  "mpvInfoChan (snd (transport r s)) = mpvInfoChan s"
  "mpvErrorChan (snd (transport r s)) = mpvErrorChan s"
  "MPVErrorsClosed (snd (transport r s)) = MPVErrorsClosed s"
  "delivered (snd (transport r s)) = delivered s"
  "removed (snd (transport r s)) = removed s"
  "sockPath (snd (transport r s)) = sockPath s"
  by (simp_all add: transport_def requests_def IsClosed_def Let_def)

lemma clearMonitor_frame:
  "requests (clearMonitor s) = requests s"
  "IsClosed (clearMonitor s) = IsClosed s"
  "answer (clearMonitor s) r = answer s r"
  "monitorMap (clearMonitor s) = Map.empty"
  "mpvInfoChan (clearMonitor s) = mpvInfoChan s"
  "mpvErrorChan (clearMonitor s) = mpvErrorChan s"
  "loop (clearMonitor s) = loop s"
  by (simp_all add: clearMonitor_def requests_def IsClosed_def answer_def)

lemma session_rejecting:
  "\<not> IsClosed (session rejecting)"
  "answer (session rejecting) r = (VNil, Some (TransportError ''rejected''))"
  "monitorMap (session rejecting) = Map.empty"
  "loop (session rejecting) = []"
  by (simp_all add: session_def eventListener_init_def MPVStart_def Call_def transport_def
      IsClosed_def rejecting_def answer_def requests_def Let_def)

subsection \<open>A failed replace still clears the monitor\<close>

text \<open>
  C9. \<^verbatim>\<open>LoadPlaylist\<close> with \<^verbatim>\<open>replace = true\<close> clears the monitor map before it issues
  the \<^verbatim>\<open>loadlist\<close> call. When that call fails (the connection is closed, or the player
  answers with an error) the function returns its load error, and the map it leaves is
  empty whatever it held before: the clear is not undone. The queue of started
  identifiers is left as it was.
\<close>

theorem LoadPlaylist_replace_failure_clears:
  assumes "IsClosed s \<or>
           snd (answer s (ReqCall [VStr ''loadlist'', VStr plpath, VStr ''replace''])) \<noteq> None"
  shows "fst (LoadPlaylist plpath True s) = Some (Errorf (''Unable to load '' @ plpath))
       \<and> monitorMap (snd (LoadPlaylist plpath True s)) = Map.empty
       \<and> mpvInfoChan (snd (LoadPlaylist plpath True s)) = mpvInfoChan s"
proof (cases "IsClosed s")
  case True
  then show ?thesis
    by (simp add: LoadPlaylist_def Call_closed clearMonitor_frame)
next
  case False
  with assms
  have "snd (answer s (ReqCall [VStr ''loadlist'', VStr plpath, VStr ''replace''])) \<noteq> None"
    by simp
  with False show ?thesis
    by (simp add: LoadPlaylist_def Call_open clearMonitor_frame split_def transport_fst
        transport_frame)
qed

theorem LoadPlaylist_replace_failure_clears_witness:
  "monitorMap ((session rejecting)\<lparr>monitorMap := [7 \<mapsto> ''Song A'']\<rparr>) 7 = Some ''Song A''
   \<and> snd (answer ((session rejecting)\<lparr>monitorMap := [7 \<mapsto> ''Song A'']\<rparr>)
            (ReqCall [VStr ''loadlist'', VStr ''list.m3u'', VStr ''replace''])) \<noteq> None
   \<and> fst (LoadPlaylist ''list.m3u'' True ((session rejecting)\<lparr>monitorMap := [7 \<mapsto> ''Song A'']\<rparr>))
       = Some (Errorf ''Unable to load list.m3u'')
   \<and> monitorMap (snd (LoadPlaylist ''list.m3u'' True
        ((session rejecting)\<lparr>monitorMap := [7 \<mapsto> ''Song A'']\<rparr>))) = Map.empty"
proof -
  let ?s = "(session rejecting)\<lparr>monitorMap := [7 \<mapsto> ''Song A'']\<rparr>"
  have a: "answer ?s r = (VNil, Some (TransportError ''rejected''))" for r
    using session_rejecting(2) [of r] by (simp add: answer_def requests_def)
  have h: "IsClosed ?s \<or>
           snd (answer ?s (ReqCall [VStr ''loadlist'', VStr ''list.m3u'', VStr ''replace''])) \<noteq> None"
    by (simp add: a)
  show ?thesis
    using LoadPlaylist_replace_failure_clears [OF h] by (simp add: a)
qed

lemma session_accepting:
  "\<not> IsClosed (session accepting)"
  "answer (session accepting) r = (VNil, None)"
  "monitorMap (session accepting) = Map.empty"
  "loop (session accepting) = []"
  "mpvInfoChan (session accepting) = make_chan 100"
  "mpvErrorChan (session accepting) = make_chan 100"
  "\<not> MPVErrorsClosed (session accepting)"
  "delivered (session accepting) = []"
  by (simp_all add: session_def eventListener_init_def MPVStart_def Call_def transport_def
      IsClosed_def accepting_def answer_def requests_def Let_def)

subsection \<open>The loop cycle\<close>

lemma CycleLoop_none:
  "loop s = [] \<Longrightarrow> loop (CycleLoop s) = ''loop-file''"
  "loop s = [] \<Longrightarrow> IsClosed (CycleLoop s) = IsClosed s"
  "loop s = [] \<Longrightarrow> \<not> IsClosed s \<Longrightarrow>
     requests (CycleLoop s) =
       requests s @ [ReqSet ''loop-file'' (VStr ''yes''), ReqSet ''loop-playlist'' (VStr ''no'')]"
  "loop s = [] \<Longrightarrow> IsClosed s \<Longrightarrow> requests (CycleLoop s) = requests s"
  by (simp_all add: CycleLoop_def Set_def transport_def requests_def IsClosed_def Let_def)

lemma CycleLoop_file:
  "loop s = ''loop-file'' \<Longrightarrow> loop (CycleLoop s) = ''loop-playlist''"
  "loop s = ''loop-file'' \<Longrightarrow> IsClosed (CycleLoop s) = IsClosed s"
  "loop s = ''loop-file'' \<Longrightarrow> \<not> IsClosed s \<Longrightarrow>
     requests (CycleLoop s) =
       requests s @ [ReqSet ''loop-file'' (VStr ''no''), ReqSet ''loop-playlist'' (VStr ''yes'')]"
  "loop s = ''loop-file'' \<Longrightarrow> IsClosed s \<Longrightarrow> requests (CycleLoop s) = requests s"
  by (simp_all add: CycleLoop_def Set_def transport_def requests_def IsClosed_def Let_def)

lemma CycleLoop_playlist:
  "loop s = ''loop-playlist'' \<Longrightarrow> loop (CycleLoop s) = []"
  "loop s = ''loop-playlist'' \<Longrightarrow> IsClosed (CycleLoop s) = IsClosed s"
  "loop s = ''loop-playlist'' \<Longrightarrow> \<not> IsClosed s \<Longrightarrow>
     requests (CycleLoop s) =
       requests s @ [ReqSet ''loop-file'' (VStr ''no''), ReqSet ''loop-playlist'' (VStr ''no'')]"
  "loop s = ''loop-playlist'' \<Longrightarrow> IsClosed s \<Longrightarrow> requests (CycleLoop s) = requests s"
  by (simp_all add: CycleLoop_def Set_def transport_def requests_def IsClosed_def Let_def)

text \<open>
  C5. From the loop state "none" (the empty string), three calls of \<^verbatim>\<open>CycleLoop\<close> move
  the client's loop state to loop-file, then to loop-playlist, and back to "none". On an
  open connection each call sends exactly two \<^verbatim>\<open>Set\<close> requests, first for
  \<^verbatim>\<open>loop-file\<close> and then for \<^verbatim>\<open>loop-playlist\<close>, with the values (yes, no), then
  (no, yes), then (no, no): one of the two is "yes" or both are "no", never both "yes".
\<close>

theorem CycleLoop_three:
  assumes "loop s = []"
  shows "loop (CycleLoop s) = ''loop-file''
       \<and> loop (CycleLoop (CycleLoop s)) = ''loop-playlist''
       \<and> loop (CycleLoop (CycleLoop (CycleLoop s))) = []
       \<and> (\<not> IsClosed s \<longrightarrow>
            requests (CycleLoop s) =
              requests s @ [ReqSet ''loop-file'' (VStr ''yes''), ReqSet ''loop-playlist'' (VStr ''no'')]
          \<and> requests (CycleLoop (CycleLoop s)) =
              requests (CycleLoop s) @
                [ReqSet ''loop-file'' (VStr ''no''), ReqSet ''loop-playlist'' (VStr ''yes'')]
          \<and> requests (CycleLoop (CycleLoop (CycleLoop s))) =
              requests (CycleLoop (CycleLoop s)) @
                [ReqSet ''loop-file'' (VStr ''no''), ReqSet ''loop-playlist'' (VStr ''no'')])"
proof -
  let ?s1 = "CycleLoop s" and ?s2 = "CycleLoop (CycleLoop s)"
  have 1: "loop ?s1 = ''loop-file''" "IsClosed ?s1 = IsClosed s"
    using assms by (simp_all add: CycleLoop_none)
  have 2: "loop ?s2 = ''loop-playlist''" "IsClosed ?s2 = IsClosed s"
    using 1 by (simp_all add: CycleLoop_file)
  show ?thesis
    using assms 1 2 by (simp add: CycleLoop_none CycleLoop_file CycleLoop_playlist)
qed

theorem CycleLoop_three_witness:
  "loop (session accepting) = [] \<and> \<not> IsClosed (session accepting)
   \<and> loop (CycleLoop (session accepting)) = ''loop-file''
   \<and> loop (CycleLoop (CycleLoop (session accepting))) = ''loop-playlist''
   \<and> loop (CycleLoop (CycleLoop (CycleLoop (session accepting)))) = []
   \<and> requests (CycleLoop (session accepting)) =
       requests (session accepting) @
         [ReqSet ''loop-file'' (VStr ''yes''), ReqSet ''loop-playlist'' (VStr ''no'')]
   \<and> requests (CycleLoop (CycleLoop (CycleLoop (session accepting)))) =
       requests (CycleLoop (CycleLoop (session accepting))) @
         [ReqSet ''loop-file'' (VStr ''no''), ReqSet ''loop-playlist'' (VStr ''no'')]"
  using CycleLoop_three [of "session accepting"] by (simp add: session_accepting)

subsection \<open>Connecting with retries\<close>

lemma connect_loop_never:
  "\<forall>j. i \<le> j \<and> j < n \<longrightarrow> \<not> openOk (nat j) \<Longrightarrow>
   connect_loop openOk n i effs = (False, effs @ concat (replicate (nat (n - i)) [Open, Sleep 1]))"
proof (induction openOk n i effs rule: connect_loop.induct)
  case (1 openOk n i effs)
  show ?case
  proof (cases "i < n")
    case False
    then show ?thesis by (simp add: connect_loop.simps [of openOk n i effs])
  next
    case True
    with "1.prems" have no: "\<not> openOk (nat i)" by simp
    have "connect_loop openOk n (i + 1) (effs @ [Open, Sleep 1]) =
          (False, (effs @ [Open, Sleep 1]) @ concat (replicate (nat (n - (i + 1))) [Open, Sleep 1]))"
      using "1.IH" [OF True no] "1.prems" by simp
    moreover have "nat (n - i) = Suc (nat (n - (i + 1)))" using True by simp
    ultimately show ?thesis
      using True no by (simp add: connect_loop.simps [of openOk n i effs])
  qed
qed

lemma connect_loop_first:
  "i \<le> k \<Longrightarrow> k < n \<Longrightarrow> openOk (nat k) \<Longrightarrow> \<forall>j. i \<le> j \<and> j < k \<longrightarrow> \<not> openOk (nat j) \<Longrightarrow>
   connect_loop openOk n i effs = (True, effs @ concat (replicate (nat (k - i)) [Open, Sleep 1]) @ [Open])"
proof (induction openOk n i effs rule: connect_loop.induct)
  case (1 openOk n i effs)
  have lt: "i < n" using "1.prems" by simp
  show ?case
  proof (cases "openOk (nat i)")
    case True
    have "k = i"
    proof (rule ccontr)
      assume "k \<noteq> i"
      with "1.prems"(1) have "i < k" by simp
      with "1.prems"(4) True show False by simp
    qed
    with True lt show ?thesis by (simp add: connect_loop.simps [of openOk n i effs])
  next
    case False
    with "1.prems" have ik: "i + 1 \<le> k" by (cases "i = k") auto
    have "connect_loop openOk n (i + 1) (effs @ [Open, Sleep 1]) =
          (True, (effs @ [Open, Sleep 1]) @ concat (replicate (nat (k - (i + 1))) [Open, Sleep 1]) @ [Open])"
      using "1.IH" [OF lt False ik] "1.prems" by simp
    moreover have "nat (k - i) = Suc (nat (k - (i + 1)))" using ik by simp
    ultimately show ?thesis
      using lt False by (simp add: connect_loop.simps [of openOk n i effs])
  qed
qed

lemma opens_rounds: "opens (concat (replicate m [Open, Sleep d])) = m"
  by (induction m) (simp_all add: opens_def)

lemma slept_rounds: "slept (concat (replicate m [Open, Sleep d])) = m * d"
  by (induction m) (simp_all add: slept_def)

lemma opens_small:
  "opens (if b then [StartProcess] else []) = 0" "opens [Open] = 1" "opens [] = 0"
  by (simp_all add: opens_def)

lemma slept_small:
  "slept (if b then [StartProcess] else []) = 0" "slept [Open] = 0" "slept [] = 0"
  by (simp_all add: slept_def)

lemma opens_append: "opens (xs @ ys) = opens xs + opens ys"
  by (simp add: opens_def)

lemma slept_append: "slept (xs @ ys) = slept xs + slept ys"
  by (simp add: slept_def)

text \<open>
  C3 as stated fails on the time: the loop sleeps after every failed open, the last one
  included. With a budget of 3 and a socket that never opens there are three opens and
  three one-second sleeps, the last effect being a sleep.
\<close>

theorem MPVConnect_never_sleeps_three:
  "snd (MPVConnect True never_opens 3 accepting True) =
     [StartProcess, Open, Sleep 1, Open, Sleep 1, Open, Sleep 1]
   \<and> slept (snd (MPVConnect True never_opens 3 accepting True)) \<noteq> 2"
  by (simp add: MPVConnect_def connect_loop.simps slept_def never_opens_def)

text \<open>
  C3, amended. Let the player start (or not be started at all) and let the budget be
  \<open>n\<close> (3 in the claim). If open number \<open>k\<close> (counted from 0, \<open>k < n\<close>) is the first to
  succeed, \<^verbatim>\<open>MPVConnect\<close> returns the connector after \<open>k + 1\<close> opens and \<open>k\<close> seconds of sleep.
  If none of the \<open>n\<close> opens succeeds, it fails with the connect error after exactly \<open>n\<close>
  opens and \<open>n\<close> seconds of sleep: one second after each failed open.
\<close>

theorem MPVConnect_retry:
  assumes "mpvexec \<longrightarrow> startOk"
  shows "(k < n \<and> openOk k \<and> (\<forall>j<k. \<not> openOk j) \<longrightarrow>
            fst (MPVConnect startOk openOk (int n) c mpvexec) = Inr \<lparr>conn = c\<lparr>isClosed := False\<rparr>\<rparr>
          \<and> opens (snd (MPVConnect startOk openOk (int n) c mpvexec)) = k + 1
          \<and> slept (snd (MPVConnect startOk openOk (int n) c mpvexec)) = k)
       \<and> ((\<forall>j<n. \<not> openOk j) \<longrightarrow>
            fst (MPVConnect startOk openOk (int n) c mpvexec) = Inl (Errorf ''Error: Could not connect to socket'')
          \<and> opens (snd (MPVConnect startOk openOk (int n) c mpvexec)) = n
          \<and> slept (snd (MPVConnect startOk openOk (int n) c mpvexec)) = n)"
proof (intro conjI impI)
  assume h: "k < n \<and> openOk k \<and> (\<forall>j<k. \<not> openOk j)"
  let ?pre = "if mpvexec then [StartProcess] else []"
  have "connect_loop openOk (int n) 0 ?pre = (True, ?pre @ concat (replicate (nat (int k - 0)) [Open, Sleep 1]) @ [Open])"
    using h by (intro connect_loop_first) (auto simp: nat_less_iff)
  then have m: "MPVConnect startOk openOk (int n) c mpvexec =
       (Inr \<lparr>conn = c\<lparr>isClosed := False\<rparr>\<rparr>, ?pre @ concat (replicate k [Open, Sleep 1]) @ [Open])"
    using assms by (simp add: MPVConnect_def)
  show "fst (MPVConnect startOk openOk (int n) c mpvexec) = Inr \<lparr>conn = c\<lparr>isClosed := False\<rparr>\<rparr>"
    by (simp add: m)
  show "opens (snd (MPVConnect startOk openOk (int n) c mpvexec)) = k + 1"
    by (simp add: m opens_append opens_rounds opens_small)
  show "slept (snd (MPVConnect startOk openOk (int n) c mpvexec)) = k"
    by (simp add: m slept_append slept_rounds slept_small)
next
  assume h: "\<forall>j<n. \<not> openOk j"
  let ?pre = "if mpvexec then [StartProcess] else []"
  have "connect_loop openOk (int n) 0 ?pre = (False, ?pre @ concat (replicate (nat (int n - 0)) [Open, Sleep 1]))"
    using h by (intro connect_loop_never) (auto simp: nat_less_iff)
  then have m: "MPVConnect startOk openOk (int n) c mpvexec =
       (Inl (Errorf ''Error: Could not connect to socket''), ?pre @ concat (replicate n [Open, Sleep 1]))"
    using assms by (simp add: MPVConnect_def)
  show "fst (MPVConnect startOk openOk (int n) c mpvexec) = Inl (Errorf ''Error: Could not connect to socket'')"
    by (simp add: m)
  show "opens (snd (MPVConnect startOk openOk (int n) c mpvexec)) = n"
    by (simp add: m opens_append opens_rounds opens_small)
  show "slept (snd (MPVConnect startOk openOk (int n) c mpvexec)) = n"
    by (simp add: m slept_append slept_rounds slept_small)
qed


theorem MPVConnect_retry_witness:
  "fst (MPVConnect True (\<lambda>k. k = 2) 3 accepting True) = Inr \<lparr>conn = accepting\<lparr>isClosed := False\<rparr>\<rparr>
   \<and> opens (snd (MPVConnect True (\<lambda>k. k = 2) 3 accepting True)) = 3
   \<and> slept (snd (MPVConnect True (\<lambda>k. k = 2) 3 accepting True)) = 2
   \<and> fst (MPVConnect True (\<lambda>k. False) 3 accepting True) = Inl (Errorf ''Error: Could not connect to socket'')
   \<and> opens (snd (MPVConnect True (\<lambda>k. False) 3 accepting True)) = 3
   \<and> slept (snd (MPVConnect True (\<lambda>k. False) 3 accepting True)) = 3"
  using MPVConnect_retry [where mpvexec = True and startOk = True and k = 2 and n = 3
      and openOk = "\<lambda>k. k = 2" and c = accepting]
    MPVConnect_retry [where mpvexec = True and startOk = True and k = 0 and n = 3
      and openOk = "\<lambda>k. False" and c = accepting]
  by simp

subsection \<open>Requests of the operations on an open connection\<close>

lemma Call_open_requests:
  "\<not> IsClosed s \<Longrightarrow> requests (snd (Call args s)) = requests s @ [ReqCall args]"
  "\<not> IsClosed s \<Longrightarrow> \<not> IsClosed (snd (Call args s))"
  "\<not> IsClosed s \<Longrightarrow> fst (Call args s) = answer s (ReqCall args)"
  by (simp_all add: Call_open transport_frame transport_fst)

lemma Set_open_requests:
  "\<not> IsClosed s \<Longrightarrow> requests (snd (Set prop v s)) = requests s @ [ReqSet prop v]"
  "\<not> IsClosed s \<Longrightarrow> \<not> IsClosed (snd (Set prop v s))"
  by (simp_all add: Set_open transport_frame)

lemma Get_open_requests:
  "\<not> IsClosed s \<Longrightarrow> requests (snd (Get prop s)) = requests s @ [ReqGet prop]"
  "\<not> IsClosed s \<Longrightarrow> \<not> IsClosed (snd (Get prop s))"
  "\<not> IsClosed s \<Longrightarrow> fst (Get prop s) = answer s (ReqGet prop)"
  by (simp_all add: Get_open transport_frame transport_fst)

lemma addToMonitor_frame:
  "requests (addToMonitor name s) = requests s"
  "IsClosed (addToMonitor name s) = IsClosed s"
  "mpvErrorChan (addToMonitor name s) = mpvErrorChan s"
  "loop (addToMonitor name s) = loop s"
  by (simp_all add: addToMonitor_def requests_def IsClosed_def split: option.splits)

lemma property_error:
  assumes "\<not> IsClosed s" and "snd (answer s (ReqGet prop)) \<noteq> None"
  shows "bool_property prop s = Returned (False, snd (Get prop s))"
    and "int_property prop s = Returned (0, snd (Get prop s))"
  using assms
  by (simp_all add: bool_property_def int_property_def split_def Get_open_requests)

lemma bool_property_open:
  "\<not> IsClosed s \<Longrightarrow> bool_property prop s = Returned (b, s1) \<Longrightarrow>
   requests s1 = requests s @ [ReqGet prop] \<and> \<not> IsClosed s1"
  by (auto simp: bool_property_def Get_open split_def transport_frame Let_def
      split: if_splits option.splits)


lemma session_gone:
  "IsClosed (session gone)"
  "requests (session gone) = []"
  "monitorMap (session gone) = Map.empty"
  by (simp_all add: session_def eventListener_init_def MPVStart_def Call_def
      IsClosed_def gone_def requests_def Let_def)

lemma session_ended:
  "\<not> IsClosed (session ended)"
  "answer (session ended) (ReqGet p) = (VBool True, None)"
  "answer (snd (Get p (session ended))) (ReqGet q) = (VBool True, None)"
  by (simp_all add: session_def eventListener_init_def MPVStart_def Call_def Get_def
      transport_def IsClosed_def ended_def answer_def requests_def Let_def)

lemma bool_property_value:
  "\<not> IsClosed s \<Longrightarrow> answer s (ReqGet prop) = (VBool b, None) \<Longrightarrow>
   bool_property prop s = Returned (b, snd (Get prop s))"
  by (simp add: bool_property_def split_def Get_open_requests)

subsection \<open>Operations on a closed connection\<close>

lemma closed_queries:
  assumes "IsClosed s"
  shows "IsPaused s = Returned (False, s)"
    and "IsShuffle s = Returned (False, s)"
    and "IsEOF s = Returned (False, s)"
    and "IsIdle s = Returned (False, s)"
    and "MediaType s = (''Audio'', s)"
    and "LoopType file s = ([], s)"
    and "TimePosition s = Returned (0, s)"
    and "Duration atoi s = Returned (0, s)"
    and "PlaylistData s = Returned ([], s)"
    and "PlaylistCount s = Returned (0, s)"
    and "PlaylistPos s = Returned (0, s)"
    and "PlaylistTitle pos s = Returned (''-'', s)"
  using assms
  by (simp_all add: IsPaused_def IsShuffle_def IsEOF_def IsIdle_def bool_property_def
      MediaType_def LoopType_def TimePosition_def PlaylistCount_def PlaylistPos_def
      int_property_def Duration_def PlaylistData_def PlaylistTitle_def Call_closed Get_closed)

lemma closed_mutators:
  assumes "IsClosed s"
  shows "SetPlaylistPos pos s = s"
    and "PlaylistDelete entry s = s"
    and "PlaylistMove a b s = s"
    and "PlaylistClear s = clearMonitor s"
    and "Play s = s"
    and "PlaylistPlayLatest s = Returned s"
    and "CyclePaused s = Returned s"
    and "CycleShuffle s = s"
    and "Stop s = s"
    and "SeekForward s = s"
    and "SeekBackward s = s"
    and "Next s = s"
    and "Prev s = s"
    and "MPVStop rm s = s"
    and "WaitUntilClosed s = Returned s"
  using assms
  by (simp_all add: SetPlaylistPos_def PlaylistDelete_def PlaylistMove_def PlaylistClear_def
      Play_def PlaylistPlayLatest_def CyclePaused_def CycleShuffle_def Stop_def
      SeekForward_def SeekBackward_def Next_def Prev_def MPVStop_def WaitUntilClosed_def
      closed_queries Call_closed Set_closed)

lemma closed_CycleLoop:
  assumes "IsClosed s"
  shows "requests (CycleLoop s) = requests s" and "IsClosed (CycleLoop s)"
    and "monitorMap (CycleLoop s) = monitorMap s"
  using assms
  by (simp_all add: CycleLoop_def Set_def requests_def IsClosed_def)

lemma closed_loads:
  assumes "IsClosed s"
  shows "files \<noteq> [] \<Longrightarrow>
         LoadFile title duration files s = Returned (Some (Errorf (''Unable to load '' @ title)), s)"
    and "LoadPlaylist plpath replace s =
           (Some (Errorf (''Unable to load '' @ plpath)), if replace then clearMonitor s else s)"
  using assms
  by (simp_all add: LoadFile_def LoadPlaylist_def Call_closed clearMonitor_frame Let_def
      split: list.splits)

text \<open>
  C1 as stated fails for the load operations: on a closed connection \<^verbatim>\<open>LoadFile\<close> answers
  with its own load error, which names the title, not with the closed-connection error;
  and called without any file it panics on \<^verbatim>\<open>files[0]\<close>.
\<close>

theorem closed_LoadFile_other_error:
  "IsClosed (session gone)
   \<and> LoadFile ''Song A'' 180 [''a.m4a''] (session gone) =
       Returned (Some (Errorf ''Unable to load Song A''), session gone)
   \<and> Errorf ''Unable to load Song A'' \<noteq> Errorf ''Connection closed''
   \<and> LoadFile ''Song A'' 180 [] (session gone) = Panicked IndexOutOfRange"
  by (simp add: LoadFile_def Call_closed session_gone Let_def)

text \<open>
  C1, amended. On a closed connection no operation hands anything to the transport, and
  none blocks or panics (for \<^verbatim>\<open>LoadFile\<close>: when it is given at least one file). The
  primitives \<^verbatim>\<open>Call\<close>, \<^verbatim>\<open>Get\<close> and \<^verbatim>\<open>Set\<close> return the closed-connection error. \<^verbatim>\<open>LoadFile\<close>
  and \<^verbatim>\<open>LoadPlaylist\<close> return their load error with the title or path. The state queries
  return their defaults: \<^verbatim>\<open>false\<close>, 0, the empty string, "Audio" for \<^verbatim>\<open>MediaType\<close> and "-"
  for \<^verbatim>\<open>PlaylistTitle\<close>. The other mutators return nothing and leave the state as it
  is, except for what they do on the client's side: \<^verbatim>\<open>PlaylistClear\<close> and a replacing
  \<^verbatim>\<open>LoadPlaylist\<close> clear the monitor map, \<^verbatim>\<open>CycleLoop\<close> advances the loop variable.
\<close>

theorem closed_connection_fails_fast:
  assumes "IsClosed s"
  shows "Call args s = ((VNil, Some (Errorf ''Connection closed'')), s)
       \<and> Get prop s = ((VNil, Some (Errorf ''Connection closed'')), s)
       \<and> Set prop v s = (Some (Errorf ''Connection closed''), s)
       \<and> (files \<noteq> [] \<longrightarrow>
            LoadFile title duration files s =
              Returned (Some (Errorf (''Unable to load '' @ title)), s))
       \<and> LoadPlaylist plpath replace s =
            (Some (Errorf (''Unable to load '' @ plpath)), if replace then clearMonitor s else s)
       \<and> requests (clearMonitor s) = requests s
       \<and> IsPaused s = Returned (False, s)
       \<and> IsShuffle s = Returned (False, s)
       \<and> IsEOF s = Returned (False, s)
       \<and> IsIdle s = Returned (False, s)
       \<and> MediaType s = (''Audio'', s)
       \<and> LoopType file s = ([], s)
       \<and> TimePosition s = Returned (0, s)
       \<and> Duration atoi s = Returned (0, s)
       \<and> PlaylistData s = Returned ([], s)
       \<and> PlaylistCount s = Returned (0, s)
       \<and> PlaylistPos s = Returned (0, s)
       \<and> PlaylistTitle pos s = Returned (''-'', s)
       \<and> SetPlaylistPos pos s = s
       \<and> PlaylistDelete entry s = s
       \<and> PlaylistMove a b s = s
       \<and> PlaylistClear s = clearMonitor s
       \<and> Play s = s
       \<and> PlaylistPlayLatest s = Returned s
       \<and> CyclePaused s = Returned s
       \<and> CycleShuffle s = s
       \<and> requests (CycleLoop s) = requests s
       \<and> Stop s = s
       \<and> SeekForward s = s
       \<and> SeekBackward s = s
       \<and> Next s = s
       \<and> Prev s = s
       \<and> MPVStop rm s = s
       \<and> WaitUntilClosed s = Returned s"
proof -
  note q = closed_queries [OF assms]
  note m = closed_mutators [OF assms]
  note l = closed_loads [OF assms]
  have lf: "files \<noteq> [] \<longrightarrow>
            LoadFile title duration files s =
              Returned (Some (Errorf (''Unable to load '' @ title)), s)"
    using l(1) by blast
  show ?thesis
    by (intro conjI)
      (rule Call_closed [OF assms] Get_closed [OF assms] Set_closed [OF assms] lf l(2)
        clearMonitor_frame(1) q m closed_CycleLoop(1) [OF assms])+
qed

theorem closed_connection_fails_fast_witness:
  "IsClosed (session gone)
   \<and> Call [VStr ''stop''] (session gone) = ((VNil, Some (Errorf ''Connection closed'')), session gone)
   \<and> LoadFile ''Song A'' 180 [''a.m4a''] (session gone) =
       Returned (Some (Errorf ''Unable to load Song A''), session gone)
   \<and> IsPaused (session gone) = Returned (False, session gone)
   \<and> PlaylistTitle 0 (session gone) = Returned (''-'', session gone)
   \<and> CyclePaused (session gone) = Returned (session gone)
   \<and> requests (CycleLoop (session gone)) = []"
  using closed_connection_fails_fast [where s = "session gone" and files = "[''a.m4a'']"
      and title = "''Song A''" and duration = 180 and args = "[VStr ''stop'']" and pos = 0]
  by (simp add: session_gone)

subsection \<open>Pausing at the end of a file\<close>

text \<open>
  C6. Let the connection be open, let \<^verbatim>\<open>IsEOF()\<close> return \<open>eof\<close> and, when it is asked
  (that is when \<open>eof\<close> holds), let \<^verbatim>\<open>IsPaused()\<close> return \<open>paused\<close>. Then \<^verbatim>\<open>CyclePaused\<close>
  returns, and the commands it has sent are the seek to the start followed by the pause
  toggle when both are true, and the pause toggle alone otherwise.
\<close>

theorem CyclePaused_seek:
  assumes "\<not> IsClosed s"
    and "IsEOF s = Returned (eof, s1)"
    and "eof \<Longrightarrow> IsPaused s1 = Returned (paused, s2)"
  shows "\<exists>s'. CyclePaused s = Returned s' \<and>
           commands (issued s s') =
             (if eof \<and> paused
              then [ [VStr ''seek'', VInt 0, VStr ''absolute-percent''], [VStr ''cycle'', VStr ''pause''] ]
              else [ [VStr ''cycle'', VStr ''pause''] ])"
proof -
  have r1: "requests s1 = requests s @ [ReqGet ''eof-reached'']" and o1: "\<not> IsClosed s1"
    using bool_property_open [OF assms(1)] assms(2) by (simp_all add: IsEOF_def)
  show ?thesis
  proof (cases eof)
    case False
    then show ?thesis
      using assms(2) r1 o1
      by (simp add: CyclePaused_def issued_def Call_open_requests)
  next
    case True
    then have p: "IsPaused s1 = Returned (paused, s2)" by (rule assms(3))
    have r2: "requests s2 = requests s1 @ [ReqGet ''pause'']" and o2: "\<not> IsClosed s2"
      using bool_property_open [OF o1] p by (simp_all add: IsPaused_def)
    show ?thesis
      using True assms(2) p r1 r2 o1 o2
      by (simp add: CyclePaused_def issued_def Call_open_requests)
  qed
qed


theorem CyclePaused_seek_witness:
  "\<not> IsClosed (session ended)
   \<and> IsEOF (session ended) = Returned (True, snd (Get ''eof-reached'' (session ended)))
   \<and> IsPaused (snd (Get ''eof-reached'' (session ended))) =
       Returned (True, snd (Get ''pause'' (snd (Get ''eof-reached'' (session ended)))))
   \<and> (\<exists>s'. CyclePaused (session ended) = Returned s' \<and>
          commands (issued (session ended) s') =
            [ [VStr ''seek'', VInt 0, VStr ''absolute-percent''], [VStr ''cycle'', VStr ''pause''] ])
   \<and> \<not> IsClosed (session rejecting)
   \<and> IsEOF (session rejecting) = Returned (False, snd (Get ''eof-reached'' (session rejecting)))
   \<and> (\<exists>s'. CyclePaused (session rejecting) = Returned s' \<and>
          commands (issued (session rejecting) s') = [ [VStr ''cycle'', VStr ''pause''] ])"
proof -
  let ?s1 = "snd (Get ''eof-reached'' (session ended))"
  have o1: "\<not> IsClosed ?s1"
    by (simp add: Get_open_requests session_ended)
  have e: "IsEOF (session ended) = Returned (True, ?s1)"
    unfolding IsEOF_def by (rule bool_property_value) (simp_all add: session_ended)
  have p: "IsPaused ?s1 = Returned (True, snd (Get ''pause'' ?s1))"
    unfolding IsPaused_def by (rule bool_property_value [OF o1]) (simp add: session_ended)
  have f: "IsEOF (session rejecting) =
             Returned (False, snd (Get ''eof-reached'' (session rejecting)))"
    unfolding IsEOF_def by (rule property_error) (simp_all add: session_rejecting)
  show ?thesis
    using CyclePaused_seek [OF session_ended(1) e, of True "snd (Get ''pause'' ?s1)"]
      CyclePaused_seek [OF session_rejecting(1) f, of False "session rejecting"]
      e p f
    by (simp add: session_ended session_rejecting)
qed

subsection \<open>Which errors reach the caller\<close>

lemma primitive_fails:
  "(snd (fst (Call args s)) \<noteq> None) = call_fails s (ReqCall args)"
  "(snd (fst (Get prop s)) \<noteq> None) = call_fails s (ReqGet prop)"
  "(fst (Set prop v s) \<noteq> None) = call_fails s (ReqSet prop v)"
  by (auto simp: call_fails_def Call_def Get_def Set_def transport_fst split_def Let_def)

lemma primitive_requests:
  "requests (snd (Call args s)) = after_sending s [ReqCall args]"
  "requests (snd (Get prop s)) = after_sending s [ReqGet prop]"
  "requests (snd (Set prop v s)) = after_sending s [ReqSet prop v]"
  "IsClosed (snd (Call args s)) = IsClosed s"
  "IsClosed (snd (Get prop s)) = IsClosed s"
  "IsClosed (snd (Set prop v s)) = IsClosed s"
  by (simp_all add: after_sending_def Call_def Get_def Set_def transport_frame split_def Let_def)

lemma after_sending_twice:
  "IsClosed s' = IsClosed s \<Longrightarrow> requests s' = after_sending s rs \<Longrightarrow>
   after_sending s' rs' = after_sending s (rs @ rs')"
  by (simp add: after_sending_def)

lemma after_sending_frame:
  "after_sending (clearMonitor s) rs = after_sending s rs"
  "after_sending (s\<lparr>loop := l\<rparr>) rs = after_sending s rs"
  by (simp_all add: after_sending_def clearMonitor_def requests_def IsClosed_def)

lemma LoadFile_result:
  assumes "files \<noteq> []"
  shows "\<exists>s'. LoadFile title duration files s =
             Returned (if call_fails s (loadfile_call title duration files)
                       then Some (Errorf (''Unable to load '' @ title)) else None, s')
           \<and> requests s' = after_sending s [loadfile_call title duration files]"
proof -
  obtain f fs where files: "files = f # fs" using assms by (cases files) auto
  let ?args = "[VStr ''loadfile'', VStr f, VStr ''append-play'',
              VStr (''title='' @ [CHR 0x27] @ title @ [CHR 0x27] @ '',length='' @ Itoa duration
                    @ (if length (f # fs) = 2 then '',audio-file='' @ (f # fs) ! 1 else []))]"
  have r: "loadfile_call title duration (f # fs) = ReqCall ?args"
    by (simp add: loadfile_call_def)
  have L: "LoadFile title duration (f # fs) s =
        (if snd (fst (Call ?args s)) \<noteq> None
         then Returned (Some (Errorf (''Unable to load '' @ title)), snd (Call ?args s))
         else Returned (None, addToMonitor title (snd (Call ?args s))))"
    by (simp add: LoadFile_def Let_def split_def)
  show ?thesis
    unfolding files r L primitive_fails(1)
    by (simp add: primitive_requests addToMonitor_frame)
qed

lemma LoadFile_no_file: "LoadFile title duration [] s = Panicked IndexOutOfRange"
  by (simp add: LoadFile_def)

lemma LoadPlaylist_result:
  "fst (LoadPlaylist plpath replace s) =
     (if call_fails s (loadlist_call plpath replace)
      then Some (Errorf (''Unable to load '' @ plpath)) else None)"
  "requests (snd (LoadPlaylist plpath replace s)) = after_sending s [loadlist_call plpath replace]"
proof -
  let ?s0 = "if replace then clearMonitor s else s"
  let ?args = "[VStr ''loadlist'', VStr plpath, VStr (if replace then ''replace'' else ''append-play'')]"
  have L: "LoadPlaylist plpath replace s =
        (if snd (fst (Call ?args ?s0)) \<noteq> None
         then (Some (Errorf (''Unable to load '' @ plpath)), snd (Call ?args ?s0))
         else (None, addToMonitor ''playlist entry'' (snd (Call ?args ?s0))))"
    by (simp add: LoadPlaylist_def Let_def split_def)
  have c: "call_fails ?s0 (ReqCall ?args) = call_fails s (ReqCall ?args)"
    by (simp add: call_fails_def clearMonitor_frame)
  have a: "after_sending ?s0 [ReqCall ?args] = after_sending s [ReqCall ?args]"
    by (simp add: after_sending_frame)
  show "fst (LoadPlaylist plpath replace s) =
     (if call_fails s (loadlist_call plpath replace)
      then Some (Errorf (''Unable to load '' @ plpath)) else None)"
    unfolding L primitive_fails(1) c loadlist_call_def by simp
  show "requests (snd (LoadPlaylist plpath replace s)) = after_sending s [loadlist_call plpath replace]"
    unfolding L primitive_fails(1) c loadlist_call_def
    by (simp add: primitive_requests addToMonitor_frame a)
qed

lemma mutators_requests:
  "requests (Play s) = after_sending s [ReqSet ''pause'' (VStr ''no'')]"
  "requests (Stop s) = after_sending s [ReqCall [VStr ''stop'']]"
  "requests (SeekForward s) = after_sending s [ReqCall [VStr ''seek'', VInt 1]]"
  "requests (SeekBackward s) = after_sending s [ReqCall [VStr ''seek'', VInt (- 1)]]"
  "requests (Next s) = after_sending s [ReqCall [VStr ''playlist-next'']]"
  "requests (Prev s) = after_sending s [ReqCall [VStr ''playlist-prev'']]"
  "requests (CycleShuffle s) = after_sending s [ReqCall [VStr ''cycle'', VStr ''shuffle'']]"
  "requests (SetPlaylistPos pos s) = after_sending s [ReqSet ''playlist-pos'' (VInt pos)]"
  "requests (PlaylistDelete entry s) = after_sending s [ReqCall [VStr ''playlist-remove'', VInt entry]]"
  "requests (PlaylistMove a b s) = after_sending s [ReqCall [VStr ''playlist-move'', VInt a, VInt b]]"
  "requests (PlaylistClear s) = after_sending s [ReqCall [VStr ''playlist-clear'']]"
  by (simp_all add: Play_def Stop_def SeekForward_def SeekBackward_def Next_def Prev_def
      CycleShuffle_def SetPlaylistPos_def PlaylistDelete_def PlaylistMove_def PlaylistClear_def
      primitive_requests clearMonitor_frame)

lemma CycleLoop_requests:
  "loop s = [] \<Longrightarrow> requests (CycleLoop s) =
     after_sending s [ReqSet ''loop-file'' (VStr ''yes''), ReqSet ''loop-playlist'' (VStr ''no'')]"
  "loop s = ''loop-file'' \<Longrightarrow> requests (CycleLoop s) =
     after_sending s [ReqSet ''loop-file'' (VStr ''no''), ReqSet ''loop-playlist'' (VStr ''yes'')]"
  "loop s = ''loop-playlist'' \<Longrightarrow> requests (CycleLoop s) =
     after_sending s [ReqSet ''loop-file'' (VStr ''no''), ReqSet ''loop-playlist'' (VStr ''no'')]"
  by (cases "IsClosed s";
      simp add: after_sending_def CycleLoop_none CycleLoop_file CycleLoop_playlist)+

lemma property_fails:
  assumes "call_fails s (ReqGet prop)"
  shows "bool_property prop s = Returned (False, snd (Get prop s))"
    and "int_property prop s = Returned (0, snd (Get prop s))"
proof -
  have "snd (fst (Get prop s)) \<noteq> None"
    unfolding primitive_fails by (rule assms)
  then show "bool_property prop s = Returned (False, snd (Get prop s))"
    and "int_property prop s = Returned (0, snd (Get prop s))"
    by (simp_all add: bool_property_def int_property_def split_def)
qed

lemma query_mutators_requests:
  "call_fails s (ReqGet ''eof-reached'') \<Longrightarrow>
     \<exists>s'. CyclePaused s = Returned s' \<and>
          requests s' = after_sending s [ReqGet ''eof-reached'', ReqCall [VStr ''cycle'', VStr ''pause'']]"
  "call_fails s (ReqGet ''playlist-count'') \<Longrightarrow>
     \<exists>s'. PlaylistPlayLatest s = Returned s' \<and>
          requests s' = after_sending s [ReqGet ''playlist-count'',
            ReqSet ''playlist-pos'' (VInt (- 1)), ReqSet ''pause'' (VStr ''no'')]"
  by (simp_all add: CyclePaused_def PlaylistPlayLatest_def IsEOF_def PlaylistCount_def
      property_fails Play_def primitive_requests after_sending_twice)

text \<open>
  C7. The transport call of a load errors exactly when the connection is closed or the
  player answers the request with an error. \<^verbatim>\<open>LoadFile\<close>, given a file, makes the one
  call \<open>loadfile_call\<close> and returns the load error made of the title exactly when that
  call errors, and \<^verbatim>\<open>nil\<close> otherwise; without a file it panics before any call and
  returns nothing. \<^verbatim>\<open>LoadPlaylist\<close> makes the one call \<open>loadlist_call\<close> and returns the
  load error made of the path exactly when that call errors. The other mutators have no
  result: each makes its calls whatever their results are (\<^verbatim>\<open>CycleLoop\<close> its second
  one also when the first has failed), and \<^verbatim>\<open>CyclePaused\<close> and \<^verbatim>\<open>PlaylistPlayLatest\<close>,
  whose query fails, carry on with the query's default and return.
\<close>

theorem loads_surface_errors_mutators_swallow:
  "((snd (fst (Call args s)) \<noteq> None) = call_fails s (ReqCall args))
   \<and> (files \<noteq> [] \<longrightarrow>
        (\<exists>s'. LoadFile title duration files s =
                 Returned (if call_fails s (loadfile_call title duration files)
                           then Some (Errorf (''Unable to load '' @ title)) else None, s')
             \<and> requests s' = after_sending s [loadfile_call title duration files]))
   \<and> (files = [] \<longrightarrow> LoadFile title duration files s = Panicked IndexOutOfRange)
   \<and> fst (LoadPlaylist plpath replace s) =
        (if call_fails s (loadlist_call plpath replace)
         then Some (Errorf (''Unable to load '' @ plpath)) else None)
   \<and> requests (snd (LoadPlaylist plpath replace s)) = after_sending s [loadlist_call plpath replace]
   \<and> requests (Play s) = after_sending s [ReqSet ''pause'' (VStr ''no'')]
   \<and> requests (Stop s) = after_sending s [ReqCall [VStr ''stop'']]
   \<and> requests (SeekForward s) = after_sending s [ReqCall [VStr ''seek'', VInt 1]]
   \<and> requests (SeekBackward s) = after_sending s [ReqCall [VStr ''seek'', VInt (- 1)]]
   \<and> requests (Next s) = after_sending s [ReqCall [VStr ''playlist-next'']]
   \<and> requests (Prev s) = after_sending s [ReqCall [VStr ''playlist-prev'']]
   \<and> requests (CycleShuffle s) = after_sending s [ReqCall [VStr ''cycle'', VStr ''shuffle'']]
   \<and> requests (SetPlaylistPos pos s) = after_sending s [ReqSet ''playlist-pos'' (VInt pos)]
   \<and> requests (PlaylistDelete entry s) = after_sending s [ReqCall [VStr ''playlist-remove'', VInt entry]]
   \<and> requests (PlaylistMove a b s) = after_sending s [ReqCall [VStr ''playlist-move'', VInt a, VInt b]]
   \<and> requests (PlaylistClear s) = after_sending s [ReqCall [VStr ''playlist-clear'']]
   \<and> (loop s = [] \<longrightarrow> requests (CycleLoop s) =
         after_sending s [ReqSet ''loop-file'' (VStr ''yes''), ReqSet ''loop-playlist'' (VStr ''no'')])
   \<and> (loop s = ''loop-file'' \<longrightarrow> requests (CycleLoop s) =
         after_sending s [ReqSet ''loop-file'' (VStr ''no''), ReqSet ''loop-playlist'' (VStr ''yes'')])
   \<and> (loop s = ''loop-playlist'' \<longrightarrow> requests (CycleLoop s) =
         after_sending s [ReqSet ''loop-file'' (VStr ''no''), ReqSet ''loop-playlist'' (VStr ''no'')])
   \<and> (call_fails s (ReqGet ''eof-reached'') \<longrightarrow>
        (\<exists>s'. CyclePaused s = Returned s' \<and>
           requests s' = after_sending s [ReqGet ''eof-reached'', ReqCall [VStr ''cycle'', VStr ''pause'']]))
   \<and> (call_fails s (ReqGet ''playlist-count'') \<longrightarrow>
        (\<exists>s'. PlaylistPlayLatest s = Returned s' \<and>
           requests s' = after_sending s [ReqGet ''playlist-count'',
             ReqSet ''playlist-pos'' (VInt (- 1)), ReqSet ''pause'' (VStr ''no'')]))"
proof -
  have lf: "files \<noteq> [] \<longrightarrow>
        (\<exists>s'. LoadFile title duration files s =
                 Returned (if call_fails s (loadfile_call title duration files)
                           then Some (Errorf (''Unable to load '' @ title)) else None, s')
             \<and> requests s' = after_sending s [loadfile_call title duration files])"
    using LoadFile_result by blast
  have nf: "files = [] \<longrightarrow> LoadFile title duration files s = Panicked IndexOutOfRange"
    by (simp add: LoadFile_no_file)
  have c1: "loop s = [] \<longrightarrow> requests (CycleLoop s) =
         after_sending s [ReqSet ''loop-file'' (VStr ''yes''), ReqSet ''loop-playlist'' (VStr ''no'')]"
    and c2: "loop s = ''loop-file'' \<longrightarrow> requests (CycleLoop s) =
         after_sending s [ReqSet ''loop-file'' (VStr ''no''), ReqSet ''loop-playlist'' (VStr ''yes'')]"
    and c3: "loop s = ''loop-playlist'' \<longrightarrow> requests (CycleLoop s) =
         after_sending s [ReqSet ''loop-file'' (VStr ''no''), ReqSet ''loop-playlist'' (VStr ''no'')]"
    using CycleLoop_requests by blast+
  have cp: "call_fails s (ReqGet ''eof-reached'') \<longrightarrow>
        (\<exists>s'. CyclePaused s = Returned s' \<and>
           requests s' = after_sending s [ReqGet ''eof-reached'', ReqCall [VStr ''cycle'', VStr ''pause'']])"
    using query_mutators_requests(1) by blast
  have pl: "call_fails s (ReqGet ''playlist-count'') \<longrightarrow>
        (\<exists>s'. PlaylistPlayLatest s = Returned s' \<and>
           requests s' = after_sending s [ReqGet ''playlist-count'',
             ReqSet ''playlist-pos'' (VInt (- 1)), ReqSet ''pause'' (VStr ''no'')])"
    using query_mutators_requests(2) by blast
  show ?thesis
    by (intro conjI)
      (rule primitive_fails(1) lf nf LoadPlaylist_result mutators_requests c1 c2 c3 cp pl)+
qed

lemma session_facts:
  "call_fails (session rejecting) r"
  "\<not> call_fails (session accepting) r"
  "call_fails (session gone) r"
  "after_sending (session rejecting) rs = requests (session rejecting) @ rs"
  "after_sending (session accepting) rs = requests (session accepting) @ rs"
  "after_sending (session gone) rs = []"
  by (simp_all add: call_fails_def after_sending_def session_rejecting session_accepting
      session_gone)

theorem loads_surface_errors_mutators_swallow_witness:
  "(\<exists>s'. LoadFile ''Song A'' 180 [''a.m4a''] (session rejecting) =
               Returned (Some (Errorf ''Unable to load Song A''), s')
          \<and> requests s' = requests (session rejecting) @ [loadfile_call ''Song A'' 180 [''a.m4a'']])
   \<and> fst (LoadPlaylist ''list.m3u'' False (session rejecting)) =
       Some (Errorf ''Unable to load list.m3u'')
   \<and> requests (snd (LoadPlaylist ''list.m3u'' False (session rejecting))) =
       requests (session rejecting) @ [loadlist_call ''list.m3u'' False]
   \<and> requests (Stop (session rejecting)) = requests (session rejecting) @ [ReqCall [VStr ''stop'']]
   \<and> requests (CycleLoop (session rejecting)) = requests (session rejecting) @
       [ReqSet ''loop-file'' (VStr ''yes''), ReqSet ''loop-playlist'' (VStr ''no'')]
   \<and> (\<exists>s'. CyclePaused (session rejecting) = Returned s')
   \<and> (\<exists>s'. PlaylistPlayLatest (session rejecting) = Returned s')
   \<and> (\<exists>s'. LoadFile ''Song A'' 180 [''a.m4a''] (session accepting) = Returned (None, s'))
   \<and> fst (LoadPlaylist ''list.m3u'' False (session accepting)) = None
   \<and> LoadFile ''Song A'' 180 [] (session accepting) = Panicked IndexOutOfRange
   \<and> (\<exists>s'. LoadFile ''Song A'' 180 [''a.m4a''] (session gone) =
               Returned (Some (Errorf ''Unable to load Song A''), s') \<and> requests s' = [])
   \<and> requests (CycleLoop ((session rejecting)\<lparr>loop := ''loop-file''\<rparr>)) =
       requests (session rejecting) @
         [ReqSet ''loop-file'' (VStr ''no''), ReqSet ''loop-playlist'' (VStr ''yes'')]
   \<and> requests (CycleLoop ((session rejecting)\<lparr>loop := ''loop-playlist''\<rparr>)) =
       requests (session rejecting) @
         [ReqSet ''loop-file'' (VStr ''no''), ReqSet ''loop-playlist'' (VStr ''no'')]"
proof -
  note f = loads_surface_errors_mutators_swallow [where s = "(session rejecting)\<lparr>loop := ''loop-file''\<rparr>"
      and files = "[''a.m4a'']" and title = "''Song A''" and duration = 180
      and plpath = "''list.m3u''" and replace = False and pos = 0 and entry = 0
      and a = 0 and b = 0 and args = "[]", simplified after_sending_frame session_facts]
  note p = loads_surface_errors_mutators_swallow [where s = "(session rejecting)\<lparr>loop := ''loop-playlist''\<rparr>"
      and files = "[''a.m4a'']" and title = "''Song A''" and duration = 180
      and plpath = "''list.m3u''" and replace = False and pos = 0 and entry = 0
      and a = 0 and b = 0 and args = "[]", simplified after_sending_frame session_facts]
  note r = loads_surface_errors_mutators_swallow [where s = "session rejecting"
      and files = "[''a.m4a'']" and title = "''Song A''" and duration = 180
      and plpath = "''list.m3u''" and replace = False and pos = 0 and entry = 0
      and a = 0 and b = 0 and args = "[]", simplified session_facts session_rejecting]
  note a = loads_surface_errors_mutators_swallow [where s = "session accepting"
      and files = "[''a.m4a'']" and title = "''Song A''" and duration = 180
      and plpath = "''list.m3u''" and replace = False and pos = 0 and entry = 0
      and a = 0 and b = 0 and args = "[]", simplified session_facts session_accepting]
  note e = loads_surface_errors_mutators_swallow [where s = "session accepting"
      and files = "[]" and title = "''Song A''" and duration = 180
      and plpath = "''list.m3u''" and replace = False and pos = 0 and entry = 0
      and a = 0 and b = 0 and args = "[]", simplified session_facts session_accepting]
  note g = loads_surface_errors_mutators_swallow [where s = "session gone"
      and files = "[''a.m4a'']" and title = "''Song A''" and duration = 180
      and plpath = "''list.m3u''" and replace = False and pos = 0 and entry = 0
      and a = 0 and b = 0 and args = "[]", simplified session_facts session_gone]
  have r1: "\<exists>s'. LoadFile ''Song A'' 180 [''a.m4a''] (session rejecting) =
               Returned (Some (Errorf ''Unable to load Song A''), s')
          \<and> requests s' = requests (session rejecting) @ [loadfile_call ''Song A'' 180 [''a.m4a'']]"
    using r by auto
  have r2: "\<exists>s'. CyclePaused (session rejecting) = Returned s'"
    using r by auto
  have r3: "\<exists>s'. PlaylistPlayLatest (session rejecting) = Returned s'"
    using r by auto
  have a1: "\<exists>s'. LoadFile ''Song A'' 180 [''a.m4a''] (session accepting) = Returned (None, s')"
    using a by auto
  have g1: "\<exists>s'. LoadFile ''Song A'' 180 [''a.m4a''] (session gone) =
               Returned (Some (Errorf ''Unable to load Song A''), s') \<and> requests s' = []"
    using g by auto
  show ?thesis
    using r a e f p r1 r2 r3 a1 g1 by simp
qed

subsection \<open>The lifecycle watcher\<close>

text \<open>
  C8. The transport has reported the connection closed, and the socket path resolves (as
  it did when the player was started). If the shutdown signal \<^verbatim>\<open>detectClose\<close> is already
  closed, the watcher returns and has done nothing. If it is still open, the watcher
  closes it and runs the teardown of \<^verbatim>\<open>StopUI\<close> once (\<^verbatim>\<open>StopPlayer\<close>, then \<^verbatim>\<open>App.Stop\<close>), then
  removes the socket file once, then prints its message; in the state this leaves, a
  second wake of the watcher finds the signal closed and does nothing more. \<^verbatim>\<open>MPVStop\<close>
  on the closed connection removes no file either.
\<close>

theorem watcher_tears_down_once:
  assumes "IsClosed s" and "ConfigPath ''socket'' = Inr path"
  shows "(detectCloseClosed u \<longrightarrow> detectMPVClose ConfigPath s u = Returned u)
       \<and> (\<not> detectCloseClosed u \<longrightarrow>
            detectMPVClose ConfigPath s u =
              Returned (u\<lparr>detectCloseClosed := True,
                          uilog := uilog u @ [StopPlayer True, AppStop, Remove path,
                                              Printf (CHR 0x0D # ''MPV has exited'')]\<rparr>)
          \<and> detectMPVClose ConfigPath s
               (u\<lparr>detectCloseClosed := True,
                  uilog := uilog u @ [StopPlayer True, AppStop, Remove path,
                                      Printf (CHR 0x0D # ''MPV has exited'')]\<rparr>) =
              Returned (u\<lparr>detectCloseClosed := True,
                          uilog := uilog u @ [StopPlayer True, AppStop, Remove path,
                                              Printf (CHR 0x0D # ''MPV has exited'')]\<rparr>))
       \<and> removed (MPVStop rm s) = removed s"
  using assms
  by (simp add: detectMPVClose_def WaitUntilClosed_def StopUI_def MPVStop_def)

theorem watcher_tears_down_once_witness:
  "IsClosed (session gone)
   \<and> detectMPVClose (\<lambda>k. Inr ''/tmp/invidtui.sock'') (session gone)
        \<lparr>detectCloseClosed = False, uilog = []\<rparr> =
       Returned \<lparr>detectCloseClosed = True,
                 uilog = [StopPlayer True, AppStop, Remove ''/tmp/invidtui.sock'',
                          Printf (CHR 0x0D # ''MPV has exited'')]\<rparr>
   \<and> detectMPVClose (\<lambda>k. Inr ''/tmp/invidtui.sock'') (session gone)
        \<lparr>detectCloseClosed = True, uilog = []\<rparr> =
       Returned \<lparr>detectCloseClosed = True, uilog = []\<rparr>"
  using watcher_tears_down_once [where s = "session gone"
      and ConfigPath = "\<lambda>k. Inr ''/tmp/invidtui.sock''" and path = "''/tmp/invidtui.sock''"
      and u = "\<lparr>detectCloseClosed = False, uilog = []\<rparr>"]
    watcher_tears_down_once [where s = "session gone"
      and ConfigPath = "\<lambda>k. Inr ''/tmp/invidtui.sock''" and path = "''/tmp/invidtui.sock''"
      and u = "\<lparr>detectCloseClosed = True, uilog = []\<rparr>"]
  by (simp add: session_gone)


lemma watcher_without_path:
  assumes "IsClosed s" and "ConfigPath ''socket'' = Inl e" and "\<not> detectCloseClosed u"
  shows "detectMPVClose ConfigPath s u =
           Returned (u\<lparr>detectCloseClosed := True,
                       uilog := uilog u @ [StopPlayer True, AppStop,
                                           Printf (CHR 0x0D # ''MPV has exited'')]\<rparr>)"
  using assms by (simp add: detectMPVClose_def WaitUntilClosed_def StopUI_def)

subsection \<open>What a load registers\<close>

lemma addToMonitor_cases:
  "\<not> chclosed (mpvInfoChan s) \<Longrightarrow> buf (mpvInfoChan s) = [] \<Longrightarrow> addToMonitor name s = s"
  "buf (mpvInfoChan s) = i # rest \<Longrightarrow>
     addToMonitor name s =
       s\<lparr>monitorMap := (monitorMap s)(i \<mapsto> name), mpvInfoChan := (mpvInfoChan s)\<lparr>buf := rest\<rparr>\<rparr>"
  by (simp_all add: addToMonitor_def chan_try_recv_def)

lemma Call_frame:
  "monitorMap (snd (Call args s)) = monitorMap s"
  "mpvInfoChan (snd (Call args s)) = mpvInfoChan s"
  "mpvErrorChan (snd (Call args s)) = mpvErrorChan s"
  "IsClosed (snd (Call args s)) = IsClosed s"
  "MPVErrorsClosed (snd (Call args s)) = MPVErrorsClosed s"
  "delivered (snd (Call args s)) = delivered s"
  by (simp_all add: Call_def transport_frame)

lemma Call_success_open: "snd (fst (Call args s)) = None \<Longrightarrow> \<not> IsClosed s"
  by (auto simp: Call_def)

lemma LoadFile_success_call:
  "LoadFile title duration files s = Returned (None, s') \<Longrightarrow>
   \<exists>args. snd (fst (Call args s)) = None \<and> s' = addToMonitor title (snd (Call args s))"
  by (cases files) (auto simp: LoadFile_def Let_def split_def split: if_splits)

lemma LoadPlaylist_success_call:
  "LoadPlaylist plpath replace s = (None, s') \<Longrightarrow>
   \<exists>args. snd (fst (Call args (if replace then clearMonitor s else s))) = None
        \<and> s' = addToMonitor ''playlist entry'' (snd (Call args (if replace then clearMonitor s else s)))"
  by (auto simp: LoadPlaylist_def Let_def split_def split: if_splits)

lemma LoadFile_success:
  assumes "LoadFile title duration files s = Returned (None, s')"
  shows "\<exists>s1. s' = addToMonitor title s1 \<and> \<not> IsClosed s \<and> monitorMap s1 = monitorMap s
            \<and> mpvInfoChan s1 = mpvInfoChan s"
proof -
  from LoadFile_success_call [OF assms] obtain args where
    a: "snd (fst (Call args s)) = None" "s' = addToMonitor title (snd (Call args s))" by blast
  from a(1) have "\<not> IsClosed s" by (rule Call_success_open)
  with a(2) show ?thesis by (auto simp: Call_frame)
qed

lemma LoadPlaylist_success:
  assumes "LoadPlaylist plpath replace s = (None, s')"
  shows "\<exists>s1. s' = addToMonitor ''playlist entry'' s1 \<and> \<not> IsClosed s
            \<and> monitorMap s1 = (if replace then Map.empty else monitorMap s)
            \<and> mpvInfoChan s1 = mpvInfoChan s"
proof -
  from LoadPlaylist_success_call [OF assms] obtain args where
    a: "snd (fst (Call args (if replace then clearMonitor s else s))) = None"
       "s' = addToMonitor ''playlist entry'' (snd (Call args (if replace then clearMonitor s else s)))"
    by blast
  from a(1) have "\<not> IsClosed (if replace then clearMonitor s else s)"
    by (rule Call_success_open)
  with a(2) show ?thesis
    by (auto simp: Call_frame clearMonitor_frame split: if_splits)
qed

text \<open>
  While the queue of started identifiers is open, a successful load registers its title
  only under a pending identifier: with none pending the map and the queue stay as they
  are (for a replacing \<^verbatim>\<open>LoadPlaylist\<close>: the cleared map), otherwise the oldest pending
  identifier is taken and mapped to the title.
\<close>

lemma load_registers_pending_on_open_queue:
  assumes "\<not> chclosed (mpvInfoChan s)"
  shows "(LoadFile title duration files s = Returned (None, s') \<longrightarrow>
            (buf (mpvInfoChan s) = [] \<longrightarrow>
               monitorMap s' = monitorMap s \<and> mpvInfoChan s' = mpvInfoChan s)
          \<and> (\<forall>i rest. buf (mpvInfoChan s) = i # rest \<longrightarrow>
               monitorMap s' = (monitorMap s)(i \<mapsto> title) \<and> buf (mpvInfoChan s') = rest))
       \<and> (LoadPlaylist plpath replace s = (None, s') \<longrightarrow>
            (buf (mpvInfoChan s) = [] \<longrightarrow>
               monitorMap s' = (if replace then Map.empty else monitorMap s)
             \<and> mpvInfoChan s' = mpvInfoChan s)
          \<and> (\<forall>i rest. buf (mpvInfoChan s) = i # rest \<longrightarrow>
               monitorMap s' = (if replace then Map.empty else monitorMap s)(i \<mapsto> ''playlist entry'')
             \<and> buf (mpvInfoChan s') = rest))"
proof (intro conjI impI allI)
  assume ok: "LoadFile title duration files s = Returned (None, s')"
  from LoadFile_success [OF ok] obtain s1 where
    s1: "s' = addToMonitor title s1" "\<not> IsClosed s" "monitorMap s1 = monitorMap s"
        "mpvInfoChan s1 = mpvInfoChan s" by blast
  from assms have op: "\<not> chclosed (mpvInfoChan s1)"
    by (simp add: s1(4))
  { assume "buf (mpvInfoChan s) = []"
    then have "addToMonitor title s1 = s1" using op by (simp add: addToMonitor_cases s1(4))
    then show "monitorMap s' = monitorMap s" "mpvInfoChan s' = mpvInfoChan s"
      by (simp_all add: s1) }
  { fix i rest assume "buf (mpvInfoChan s) = i # rest"
    then have "buf (mpvInfoChan s1) = i # rest" by (simp add: s1(4))
    from addToMonitor_cases(2) [OF this, of title]
    show "monitorMap s' = (monitorMap s)(i \<mapsto> title)" "buf (mpvInfoChan s') = rest"
      by (simp_all add: s1) }
next
  assume ok: "LoadPlaylist plpath replace s = (None, s')"
  from LoadPlaylist_success [OF ok] obtain s1 where
    s1: "s' = addToMonitor ''playlist entry'' s1" "\<not> IsClosed s"
        "monitorMap s1 = (if replace then Map.empty else monitorMap s)"
        "mpvInfoChan s1 = mpvInfoChan s" by auto
  from assms have op: "\<not> chclosed (mpvInfoChan s1)"
    by (simp add: s1(4))
  { assume "buf (mpvInfoChan s) = []"
    then have "addToMonitor ''playlist entry'' s1 = s1" using op by (simp add: addToMonitor_cases s1(4))
    then show "monitorMap s' = (if replace then Map.empty else monitorMap s)"
      "mpvInfoChan s' = mpvInfoChan s"
      by (simp_all add: s1) }
  { fix i rest assume "buf (mpvInfoChan s) = i # rest"
    then have "buf (mpvInfoChan s1) = i # rest" by (simp add: s1(4))
    from addToMonitor_cases(2) [OF this, of "''playlist entry''"]
    show "monitorMap s' = (if replace then Map.empty else monitorMap s)(i \<mapsto> ''playlist entry'')"
      "buf (mpvInfoChan s') = rest"
      by (simp_all add: s1) }
qed

lemma LoadFile_between_nothing:
  "LoadFile_between Returned title duration files s = LoadFile title duration files s"
  by (simp add: LoadFile_between_def LoadFile_def Let_def split_def split: list.splits)

text \<open>
  C10 against the code. \<^verbatim>\<open>addToMonitor\<close> discards the \<^verbatim>\<open>ok\<close> of its receive, so on a queue
  that has been closed it takes the zero value for an identifier. On a fresh session no
  identifier is pending, and \<^verbatim>\<open>LoadFile\<close> run in one piece returns \<^verbatim>\<open>nil\<close> and leaves the
  map without an entry. When the listener's \<open>shutdown\<close> runs after the load's call has
  succeeded and before its title is registered, \<^verbatim>\<open>LoadFile\<close> still returns \<^verbatim>\<open>nil\<close>, and
  the map holds the title under identifier 0, although no identifier was pending.
\<close>

theorem registration_after_shutdown_stores_zero:
  "buf (mpvInfoChan (session accepting)) = []
   \<and> reported (LoadFile ''Song A'' 180 [''a.m4a''] (session accepting)) = Some None
   \<and> registered (LoadFile ''Song A'' 180 [''a.m4a''] (session accepting)) 0 = Some None
   \<and> reported (LoadFile_between shutdown ''Song A'' 180 [''a.m4a''] (session accepting)) = Some None
   \<and> registered (LoadFile_between shutdown ''Song A'' 180 [''a.m4a''] (session accepting)) 0
       = Some (Some ''Song A'')"
  by (simp add: reported_def registered_def LoadFile_between_def shutdown_def chan_close_def
      eval_defs)


subsection \<open>Runs of the listener and the loads\<close>

lemma go_int_of_int: "go_int (of_int i) = i"
  by (simp add: go_int_def)

lemma listenerStep_start:
  "listenerStep (Some (start_file i)) s = send_info i s"
  by (simp add: listenerStep_def start_file_def extra_def go_int_of_int)

lemma listenerStep_end:
  "msg \<noteq> [] \<Longrightarrow> listenerStep (Some (end_file i msg)) s = send_error i s"
  by (simp add: listenerStep_def end_file_def extra_def go_int_of_int)

lemma send_info_room:
  "\<not> chclosed (mpvInfoChan s) \<Longrightarrow> length (buf (mpvInfoChan s)) < cap (mpvInfoChan s) \<Longrightarrow>
   send_info i s = Returned (True, s\<lparr>mpvInfoChan := (mpvInfoChan s)\<lparr>buf := buf (mpvInfoChan s) @ [i]\<rparr>\<rparr>)"
  by (simp add: send_info_def chan_send_def)

lemma send_info_full:
  "\<not> chclosed (mpvInfoChan s) \<Longrightarrow> \<not> length (buf (mpvInfoChan s)) < cap (mpvInfoChan s) \<Longrightarrow>
   send_info i s = Blocked"
  by (simp add: send_info_def chan_send_def)

lemma send_error_room:
  "\<not> chclosed (mpvErrorChan s) \<Longrightarrow> length (buf (mpvErrorChan s)) < cap (mpvErrorChan s) \<Longrightarrow>
   send_error i s = Returned (True, s\<lparr>mpvErrorChan := (mpvErrorChan s)\<lparr>buf := buf (mpvErrorChan s) @ [i]\<rparr>\<rparr>)"
  by (simp add: send_error_def chan_send_def)

lemma send_error_full:
  "\<not> chclosed (mpvErrorChan s) \<Longrightarrow> \<not> length (buf (mpvErrorChan s)) < cap (mpvErrorChan s) \<Longrightarrow>
   send_error i s = Blocked"
  by (simp add: send_error_def chan_send_def)

lemma run_append:
  "run (as @ bs) y =
     (case run as y of Returned y' \<Rightarrow> run bs y' | Panicked p \<Rightarrow> Panicked p | Blocked \<Rightarrow> Blocked)"
  by (induction as arbitrary: y) (auto split: outcome.splits)

text \<open>
  C2 against the code. \<^verbatim>\<open>LoadFile\<close> registers its title right after its own call, but
  the identifier of the file arrives only with the "file started" event that follows.
  On a fresh session, after \<^verbatim>\<open>LoadFile\<close> of "Song A" and the start event of identifier
  7 the map has no entry for 7: the title was dropped and 7 waits in the queue. The load
  of "Song B" then takes 7, so that after its own start event (identifier 8) the map
  holds "Song B" under 7; and when file 7 ends with an error, "Song B" is the title
  republished on the error channel.
\<close>

theorem load_before_start_is_not_tracked:
  "tracked (run [DoLoadFile ''Song A'' 180 [''a.m4a''], Deliver (Some (start_file 7))]
             (booted accepting)) 7 = Some None
   \<and> pending (run [DoLoadFile ''Song A'' 180 [''a.m4a''], Deliver (Some (start_file 7))]
             (booted accepting)) = Some [7]
   \<and> tracked (run [DoLoadFile ''Song A'' 180 [''a.m4a''], Deliver (Some (start_file 7)),
                  DoLoadFile ''Song B'' 200 [''b.m4a''], Deliver (Some (start_file 8))]
             (booted accepting)) 7 = Some (Some ''Song B'')
   \<and> notified (run [DoLoadFile ''Song A'' 180 [''a.m4a''], Deliver (Some (start_file 7)),
                   DoLoadFile ''Song B'' 200 [''b.m4a''], Deliver (Some (start_file 8)),
                   Deliver (Some (end_file 7 ''loading failed'')), MonitorTurn True]
             (booted accepting)) = Some [''Song B'']"
  by (simp add: eval_defs)

subsection \<open>The listener's sends\<close>

lemma run_starts:
  "listening y \<Longrightarrow> \<not> chclosed (mpvInfoChan (prog y)) \<Longrightarrow>
   length (buf (mpvInfoChan (prog y))) + n \<le> cap (mpvInfoChan (prog y)) \<Longrightarrow>
   run (replicate n (Deliver (Some (start_file i)))) y =
     Returned (y\<lparr>prog := (prog y)\<lparr>mpvInfoChan :=
                 (mpvInfoChan (prog y))\<lparr>buf := buf (mpvInfoChan (prog y)) @ replicate n i\<rparr>\<rparr>\<rparr>)"
proof (induction n arbitrary: y)
  case 0
  then show ?case by simp
next
  case (Suc n)
  let ?y1 = "y\<lparr>prog := (prog y)\<lparr>mpvInfoChan :=
                 (mpvInfoChan (prog y))\<lparr>buf := buf (mpvInfoChan (prog y)) @ [i]\<rparr>\<rparr>\<rparr>"
  have 1: "step (Deliver (Some (start_file i))) y = Returned ?y1"
    using Suc.prems by (simp add: listenerStep_start send_info_room)
  have "run (replicate n (Deliver (Some (start_file i)))) ?y1 =
     Returned (?y1\<lparr>prog := (prog ?y1)\<lparr>mpvInfoChan :=
                 (mpvInfoChan (prog ?y1))\<lparr>buf := buf (mpvInfoChan (prog ?y1)) @ replicate n i\<rparr>\<rparr>\<rparr>)"
    using Suc.prems by (intro Suc.IH) simp_all
  then show ?case
    by (simp add: 1 replicate_app_Cons_same del: step.simps)
qed

lemma run_failures:
  "listening y \<Longrightarrow> msg \<noteq> [] \<Longrightarrow> \<not> chclosed (mpvErrorChan (prog y)) \<Longrightarrow>
   length (buf (mpvErrorChan (prog y))) + n \<le> cap (mpvErrorChan (prog y)) \<Longrightarrow>
   run (replicate n (Deliver (Some (end_file i msg)))) y =
     Returned (y\<lparr>prog := (prog y)\<lparr>mpvErrorChan :=
                 (mpvErrorChan (prog y))\<lparr>buf := buf (mpvErrorChan (prog y)) @ replicate n i\<rparr>\<rparr>\<rparr>)"
proof (induction n arbitrary: y)
  case 0
  then show ?case by simp
next
  case (Suc n)
  let ?y1 = "y\<lparr>prog := (prog y)\<lparr>mpvErrorChan :=
                 (mpvErrorChan (prog y))\<lparr>buf := buf (mpvErrorChan (prog y)) @ [i]\<rparr>\<rparr>\<rparr>"
  have 1: "step (Deliver (Some (end_file i msg))) y = Returned ?y1"
    using Suc.prems by (simp add: listenerStep_end send_error_room)
  have "run (replicate n (Deliver (Some (end_file i msg)))) ?y1 =
     Returned (?y1\<lparr>prog := (prog ?y1)\<lparr>mpvErrorChan :=
                 (mpvErrorChan (prog ?y1))\<lparr>buf := buf (mpvErrorChan (prog ?y1)) @ replicate n i\<rparr>\<rparr>\<rparr>)"
    using Suc.prems by (intro Suc.IH) simp_all
  then show ?case
    by (simp add: 1 replicate_app_Cons_same del: step.simps)
qed

lemma booted_facts:
  "listening (booted accepting)"
  "\<not> chclosed (mpvInfoChan (prog (booted accepting)))"
  "buf (mpvInfoChan (prog (booted accepting))) = []"
  "cap (mpvInfoChan (prog (booted accepting))) = 100"
  "\<not> chclosed (mpvErrorChan (prog (booted accepting)))"
  "buf (mpvErrorChan (prog (booted accepting))) = []"
  "cap (mpvErrorChan (prog (booted accepting))) = 100"
  by (simp_all add: booted_def session_accepting make_chan_def)

text \<open>
  C4 against the code. The listener's two enqueues are plain channel sends on queues of
  100 identifiers. From a fresh start, 100 "file started" events without a load in
  between fill the queue of started identifiers, and on the 101st the listener blocks;
  the same happens with 101 error-ended events while the monitor task has not run.
\<close>

theorem listener_blocks_on_full_queue:
  "pending (run (replicate 100 (Deliver (Some (start_file 1)))) (booted accepting))
     = Some (replicate 100 1)
   \<and> run (replicate 100 (Deliver (Some (start_file 1))) @ [Deliver (Some (start_file 1))])
        (booted accepting) = Blocked
   \<and> run (replicate 100 (Deliver (Some (end_file 1 ''loading failed'')))
           @ [Deliver (Some (end_file 1 ''loading failed''))]) (booted accepting) = Blocked"
proof -
  have a: "run (replicate 100 (Deliver (Some (start_file 1)))) (booted accepting) =
     Returned ((booted accepting)\<lparr>prog := (prog (booted accepting))\<lparr>mpvInfoChan :=
        (mpvInfoChan (prog (booted accepting)))\<lparr>buf := [] @ replicate 100 1\<rparr>\<rparr>\<rparr>)"
    using run_starts [of "booted accepting" 100 1] by (simp add: booted_facts)
  have b: "run (replicate 100 (Deliver (Some (end_file 1 ''loading failed'')))) (booted accepting) =
     Returned ((booted accepting)\<lparr>prog := (prog (booted accepting))\<lparr>mpvErrorChan :=
        (mpvErrorChan (prog (booted accepting)))\<lparr>buf := [] @ replicate 100 1\<rparr>\<rparr>\<rparr>)"
    using run_failures [of "booted accepting" "''loading failed''" 100 1] by (simp add: booted_facts)
  show ?thesis
    by (simp add: run_append a b pending_def booted_facts listenerStep_start listenerStep_end
        send_info_full send_error_full)
qed

end
